theory Spec2Isabelle
  imports Complex_Main "HOL-Library.Log_Nat"
begin

section \<open>JavaScript numbers\<close>

text \<open>
  A JavaScript \<open>number\<close> is an IEEE 754 binary64 value. The finite values are
  represented by the rational they denote; the zero with the sign bit set, the two
  infinities and the not-a-number value are separate constructors. \<open>Finite 0\<close> is
  the positive zero. Every arithmetic operation rounds its exact result to the
  nearest binary64 value, ties to the even significand (\<open>roundToDouble\<close>).
\<close>

datatype number = NaN | PosInfinity | NegInfinity | NegZero | Finite rat

text \<open>
  \<open>floorlog_rat b a\<close> is the integer \<open>e\<close> with \<open>b^e \<le> a < b^(e+1)\<close>, for a base
  \<open>b > 1\<close> and \<open>a > 0\<close>: the position of the leading digit of \<open>a\<close> in base \<open>b\<close>.
\<close>

definition floorlog_rat :: "nat \<Rightarrow> rat \<Rightarrow> int" where
  "floorlog_rat b a =
     (if 1 \<le> a then int (floorlog b (nat \<lfloor>a\<rfloor>)) - 1
      else - int (floorlog b (nat (\<lceil>1 / a\<rceil> - 1))))"

definition roundTiesToEven :: "rat \<Rightarrow> int" where
  "roundTiesToEven r =
     (let f = \<lfloor>r\<rfloor>; d = r - of_int f
      in if d < 1 / 2 then f
         else if 1 / 2 < d then f + 1
         else if even f then f else f + 1)"

text \<open>
  Rounding of an exact result to binary64: 53 significant bits, least exponent
  \<open>-1022\<close> (below it the spacing stays \<open>2^-1074\<close>: subnormal numbers), overflow to
  an infinity from \<open>2^1024 - 2^970\<close> on, underflow to a zero of the same sign.
\<close>

definition roundToDouble :: "rat \<Rightarrow> number" where
  "roundToDouble q =
     (if q = 0 then Finite 0
      else let e = max (floorlog_rat 2 \<bar>q\<bar>) (- 1022);
               u = 2 powi (e - 52);
               m = roundTiesToEven (\<bar>q\<bar> / u);
               r = of_int m * u
           in if 2 powi 1024 \<le> r then (if 0 < q then PosInfinity else NegInfinity)
              else if m = 0 then (if 0 < q then Finite 0 else NegZero)
              else Finite (if 0 < q then r else - r))"

fun negative :: "number \<Rightarrow> bool" where
  "negative NegInfinity = True"
| "negative NegZero = True"
| "negative (Finite q) = (q < 0)"
| "negative _ = False"

fun isInfinity :: "number \<Rightarrow> bool" where
  "isInfinity PosInfinity = True"
| "isInfinity NegInfinity = True"
| "isInfinity _ = False"

fun isZero :: "number \<Rightarrow> bool" where
  "isZero NegZero = True"
| "isZero (Finite q) = (q = 0)"
| "isZero _ = False"

text \<open>The mathematical value of a finite number (both zeros are \<open>0\<close>).\<close>

fun val :: "number \<Rightarrow> rat" where
  "val (Finite q) = q"
| "val _ = 0"

definition infinity :: "bool \<Rightarrow> number" where
  "infinity neg = (if neg then NegInfinity else PosInfinity)"

definition zero :: "bool \<Rightarrow> number" where
  "zero neg = (if neg then NegZero else Finite 0)"

text \<open>The operator \<open>/\<close> on numbers (ECMAScript \<open>Number::divide\<close>, IEEE 754 division).\<close>

definition Number_divide :: "number \<Rightarrow> number \<Rightarrow> number" where
  "Number_divide x y =
     (if x = NaN \<or> y = NaN then NaN
      else let s = (negative x \<noteq> negative y)
           in if isInfinity x then (if isInfinity y then NaN else infinity s)
              else if isInfinity y then zero s
              else if isZero y then (if isZero x then NaN else infinity s)
              else if isZero x then zero s
              else roundToDouble (val x / val y))"

text \<open>The operator \<open>*\<close> on numbers (\<open>Number::multiply\<close>).\<close>

definition Number_multiply :: "number \<Rightarrow> number \<Rightarrow> number" where
  "Number_multiply x y =
     (if x = NaN \<or> y = NaN then NaN
      else let s = (negative x \<noteq> negative y)
           in if isInfinity x \<or> isInfinity y
              then (if isZero x \<or> isZero y then NaN else infinity s)
              else if isZero x \<or> isZero y then zero s
              else roundToDouble (val x * val y))"

text \<open>The operator \<open>+\<close> on numbers (\<open>Number::add\<close>).\<close>

definition Number_add :: "number \<Rightarrow> number \<Rightarrow> number" where
  "Number_add x y =
     (if x = NaN \<or> y = NaN then NaN
      else if isInfinity x then (if isInfinity y \<and> x \<noteq> y then NaN else x)
      else if isInfinity y then y
      else if x = NegZero \<and> y = NegZero then NegZero
      else roundToDouble (val x + val y))"

text \<open>
  The comparison \<open>x < y\<close> on numbers (\<open>Number::lessThan\<close>, with the undefined
  result of a comparison with \<open>NaN\<close> read as false, as the operator \<open><\<close> does).
  \<open>x > y\<close> is \<open>Number_lessThan y x\<close>.
\<close>

definition Number_lessThan :: "number \<Rightarrow> number \<Rightarrow> bool" where
  "Number_lessThan x y =
     (if x = NaN \<or> y = NaN then False
      else if x = PosInfinity \<or> y = NegInfinity then False
      else if x = NegInfinity \<or> y = PosInfinity then True
      else val x < val y)"

section \<open>The department records\<close>

text \<open>
  The interface \<open>Department\<close>. The two derived fields are optional: \<open>None\<close> is
  the absent property, read as \<open>undefined\<close>.
\<close>

record Department =
  Department :: string
  Students :: number
  Faculty :: number
  Budget :: number
  Student_Faculty_Ratio :: "number option"
  Budget_per_Student :: "number option"

text \<open>
  \<open>analyzeDepartmentData\<close>: the object spread copies every property of \<open>dept\<close>, then
  the two derived properties are set (replacing a copied one of the same name).
\<close>

definition analyzeDepartmentData :: "Department list \<Rightarrow> Department list" where
  "analyzeDepartmentData departments =
     map (\<lambda>dept. dept
            \<lparr> Student_Faculty_Ratio := Some (Number_divide (Students dept) (Faculty dept)),
              Budget_per_Student := Some (Number_divide (Budget dept) (Students dept)) \<rparr>)
         departments"

section \<open>Numbers as strings\<close>

text \<open>
  Strings are lists of bytes; a character outside ASCII is written as the bytes of
  its UTF-8 encoding.
\<close>

definition digit :: "nat \<Rightarrow> char" where
  "digit d = ''0123456789'' ! d"

text \<open>The digits of the decimal representation of \<open>n\<close>, with no leading zero (\<open>0\<close> is \<open>''0''\<close>).\<close>

fun decimal :: "nat \<Rightarrow> string" where
  "decimal n = (if n < 10 then [digit n] else decimal (n div 10) @ [digit (n mod 10)])"

declare decimal.simps [simp del]

text \<open>
  \<open>Number::toString\<close> in radix 10 chooses integers \<open>n\<close>, \<open>k\<close>, \<open>s\<close> with \<open>k \<ge> 1\<close>,
  \<open>10^(k-1) \<le> s < 10^k\<close>, such that \<open>s * 10^(n-k)\<close> rounds to the number, with \<open>k\<close> as
  small as possible and then \<open>s * 10^(n-k)\<close> as close to the number as possible (the even
  \<open>s\<close> of two equally close). For \<open>k\<close> digits the candidates are the two multiples of
  \<open>10^(n-k)\<close> around \<open>x\<close>, in the decade of \<open>x\<close> (\<open>n = n0\<close>) and at the power of ten
  above it (\<open>n = n0 + 1\<close>).
\<close>

definition candidates :: "rat \<Rightarrow> int \<Rightarrow> nat \<Rightarrow> (int \<times> int) list" where
  "candidates x n0 k =
     filter (\<lambda>(s, n). 10 ^ (k - 1) \<le> s \<and> s < 10 ^ k
                       \<and> roundToDouble (of_int s * 10 powi (n - int k)) = Finite x)
       (concat (map (\<lambda>n. let s = \<lfloor>x / 10 powi (n - int k)\<rfloor> in [(s, n), (s + 1, n)])
                    [n0, n0 + 1]))"

definition closer :: "rat \<Rightarrow> nat \<Rightarrow> int \<times> int \<Rightarrow> int \<times> int \<Rightarrow> int \<times> int" where
  "closer x k c1 c2 =
     (let d1 = \<bar>of_int (fst c1) * 10 powi (snd c1 - int k) - x\<bar>;
          d2 = \<bar>of_int (fst c2) * 10 powi (snd c2 - int k) - x\<bar>
      in if d2 < d1 \<or> (d2 = d1 \<and> odd (fst c1) \<and> even (fst c2)) then c2 else c1)"

text \<open>
  The search for the least \<open>k\<close>, from \<open>k\<close> upwards, at most \<open>fuel\<close> steps: the result is
  \<open>(s, n, k)\<close>. Seventeen digits identify every binary64 value, so from \<open>k = 1\<close> with
  fuel 17 the last equation is not reached for one.
\<close>

fun shortest :: "rat \<Rightarrow> int \<Rightarrow> nat \<Rightarrow> nat \<Rightarrow> int \<times> int \<times> nat" where
  "shortest x n0 (Suc fuel) k =
     (case candidates x n0 k of
        [] \<Rightarrow> shortest x n0 fuel (Suc k)
      | c # cs \<Rightarrow> (let (s, n) = foldl (closer x k) c cs in (s, n, k)))"
| "shortest x n0 0 k = (\<lfloor>x / 10 powi (n0 - int k)\<rfloor>, n0, k)"

definition formatDigits :: "int \<times> int \<times> nat \<Rightarrow> string" where
  "formatDigits snk =
     (let (s, n, k) = snk; ds = decimal (nat s)
      in if - 5 \<le> n \<and> n \<le> 21 then
           (if int k \<le> n then ds @ replicate (nat (n - int k)) CHR ''0''
            else if 0 < n then take (nat n) ds @ ''.'' @ drop (nat n) ds
            else ''0.'' @ replicate (nat (- n)) CHR ''0'' @ ds)
         else
           (let e = n - 1;
                es = (if e < 0 then ''-'' else ''+'') @ decimal (nat \<bar>e\<bar>)
            in if k = 1 then ds @ ''e'' @ es
               else take 1 ds @ ''.'' @ drop 1 ds @ ''e'' @ es))"

text \<open>The string of a number, as a template literal or \<open>String(x)\<close> gives it.\<close>

definition numberToString :: "number \<Rightarrow> string" where
  "numberToString x =
     (case x of
        NaN \<Rightarrow> ''NaN''
      | PosInfinity \<Rightarrow> ''Infinity''
      | NegInfinity \<Rightarrow> ''-Infinity''
      | NegZero \<Rightarrow> ''0''
      | Finite q \<Rightarrow>
          if q = 0 then ''0''
          else (if q < 0 then ''-'' else [])
               @ formatDigits (shortest \<bar>q\<bar> (floorlog_rat 10 \<bar>q\<bar> + 1) 17 1))"

text \<open>
  \<open>Number.prototype.toFixed\<close> with \<open>f\<close> fraction digits (\<open>0 \<le> f \<le> 100\<close>; the
  program passes 1 and 2). A value that is not finite is shown by its name; a finite
  one of magnitude \<open>10^21\<close> or more as \<open>numberToString\<close> shows it; any other as the
  integer \<open>n\<close> nearest to \<open>x * 10^f\<close> (the larger of two equally near), with a point
  before its last \<open>f\<close> digits.
\<close>

definition toFixed :: "nat \<Rightarrow> number \<Rightarrow> string" where
  "toFixed f x =
     (case x of
        NaN \<Rightarrow> ''NaN''
      | PosInfinity \<Rightarrow> ''Infinity''
      | NegInfinity \<Rightarrow> ''-Infinity''
      | _ \<Rightarrow>
          (let s = (if val x < 0 then ''-'' else []);
               a = \<bar>val x\<bar>
           in if 10 ^ 21 \<le> a then s @ numberToString (Finite a)
              else
                (let n = nat \<lfloor>a * 10 ^ f + 1 / 2\<rfloor>;
                     m = decimal n;
                     m = (if f \<noteq> 0 \<and> length m \<le> f
                          then replicate (f + 1 - length m) CHR ''0'' @ m else m);
                     k = length m
                 in if f \<noteq> 0 then s @ take (k - f) m @ ''.'' @ drop (k - f) m
                    else s @ m)))"

text \<open>\<open>ToNumber\<close> of an optional number: \<open>undefined\<close> converts to \<open>NaN\<close>.\<close>

fun ToNumber :: "number option \<Rightarrow> number" where
  "ToNumber None = NaN"
| "ToNumber (Some x) = x"

section \<open>The recommendations\<close>

text \<open>The exceptions the program can raise.\<close>

datatype exn = TypeError | SyntaxError

text \<open>
  The dataset-wide average of the callback: \<open>reduce\<close> from the left with initial value
  \<open>0\<close>, divided by the length of the array.
\<close>

definition avgBudgetPerStudent :: "Department list \<Rightarrow> number" where
  "avgBudgetPerStudent departments =
     Number_divide
       (foldl (\<lambda>acc d. Number_add acc (Number_divide (Budget d) (Students d)))
              (Finite 0) departments)
       (Finite (of_nat (length departments)))"

definition highRatioMessage :: "string \<Rightarrow> string \<Rightarrow> string" where
  "highRatioMessage name ratio =
     [CHR 0xF0, CHR 0x9F, CHR 0x9A, CHR 0xA8] @ '' High student-faculty ratio in '' @ name
     @ '' ('' @ ratio @ '':1). Consider hiring more faculty.''"

definition lowBudgetMessage :: "string \<Rightarrow> string \<Rightarrow> string" where
  "lowBudgetMessage name budget =
     [CHR 0xF0, CHR 0x9F, CHR 0x92, CHR 0xB0] @ '' Low budget per student in '' @ name
     @ '' ($'' @ budget @ ''). Consider budget increase.''"

text \<open>
  The first statement of the callback. The comparison converts an absent field to
  \<open>NaN\<close> and is then false; \<open>toFixed\<close> on an absent field would raise a
  \<open>TypeError\<close>.
\<close>

definition highRatioRule :: "Department \<Rightarrow> string list \<Rightarrow> exn + string list" where
  "highRatioRule dept recommendations =
     (if Number_lessThan (Finite 30) (ToNumber (Student_Faculty_Ratio dept))
      then (case Student_Faculty_Ratio dept of
              None \<Rightarrow> Inl TypeError
            | Some ratio \<Rightarrow>
                Inr (recommendations @ [highRatioMessage (Department dept) (toFixed 1 ratio)]))
      else Inr recommendations)"

text \<open>
  The second \<open>if\<close> statement of the callback, for a given value of the constant
  \<open>avgBudgetPerStudent\<close>; the literal \<open>0.8\<close> is the binary64 value nearest to it.
\<close>

definition lowBudgetRule :: "number \<Rightarrow> Department \<Rightarrow> string list \<Rightarrow> exn + string list" where
  "lowBudgetRule avg dept recommendations =
     (if Number_lessThan (ToNumber (Budget_per_Student dept))
                         (Number_multiply avg (roundToDouble (8 / 10)))
      then (case Budget_per_Student dept of
              None \<Rightarrow> Inl TypeError
            | Some budget \<Rightarrow>
                Inr (recommendations @ [lowBudgetMessage (Department dept) (toFixed 2 budget)]))
      else Inr recommendations)"

text \<open>
  The callback of \<open>forEach\<close>: the array \<open>recommendations\<close> is its state. The average
  is computed in every call, between the two \<open>if\<close> statements.
\<close>

definition callback ::
  "Department list \<Rightarrow> string list \<Rightarrow> Department \<Rightarrow> exn + string list" where
  "callback departments recommendations dept =
     (case highRatioRule dept recommendations of
        Inl e \<Rightarrow> Inl e
      | Inr recommendations' \<Rightarrow>
          (let avg = avgBudgetPerStudent departments
           in lowBudgetRule avg dept recommendations'))"

text \<open>\<open>Array.prototype.forEach\<close> with a callback that updates a state and may raise.\<close>

fun forEach :: "('s \<Rightarrow> 'a \<Rightarrow> exn + 's) \<Rightarrow> 'a list \<Rightarrow> 's \<Rightarrow> exn + 's" where
  "forEach f [] s = Inr s"
| "forEach f (x # xs) s = (case f s x of Inl e \<Rightarrow> Inl e | Inr s' \<Rightarrow> forEach f xs s')"

definition generateRecommendations :: "Department list \<Rightarrow> exn + string list" where
  "generateRecommendations departments = forEach (callback departments) departments []"

text \<open>
  The variant of the specification's design note: the average is computed once per
  call, before the loop, and the callback only reads it.
\<close>

definition callbackHoisted ::
  "number \<Rightarrow> string list \<Rightarrow> Department \<Rightarrow> exn + string list" where
  "callbackHoisted avg recommendations dept =
     (case highRatioRule dept recommendations of
        Inl e \<Rightarrow> Inl e
      | Inr recommendations' \<Rightarrow> lowBudgetRule avg dept recommendations')"

definition generateRecommendationsHoisted :: "Department list \<Rightarrow> exn + string list" where
  "generateRecommendationsHoisted departments =
     (let avg = avgBudgetPerStudent departments
      in forEach (callbackHoisted avg) departments [])"

section \<open>The application state\<close>

text \<open>
  The values the program reads out of a parsed JSON document, and \<open>undefined\<close>. An
  object is the list of its properties, each key once.
\<close>

datatype jsvalue =
    JUndefined
  | JNull
  | JBoolean bool
  | JNumber number
  | JString string
  | JArray "jsvalue list"
  | JObject "(string \<times> jsvalue) list"

text \<open>
  The state of the component: \<open>data\<close>, \<open>aiInsight\<close> and \<open>loading\<close>, for rows of type
  \<open>'row\<close>: the records of the interface where the program builds the rows itself
  (\<open>loadSampleData\<close>), and the rows as they are when the program runs where it reads
  rows that a file upload may have set (\<open>getAiInsights\<close>). \<open>aiInsight\<close> is declared a
  string, and holds whatever value \<open>setAiInsight\<close> is given.
\<close>

record 'row AppState =
  data :: "'row list"
  aiInsight :: jsvalue
  loading :: bool

text \<open>
  An object literal with the four base properties, as those of the sample data: the
  derived properties are absent.
\<close>

definition department :: "string \<Rightarrow> rat \<Rightarrow> rat \<Rightarrow> rat \<Rightarrow> Department" where
  "department name students faculty budget =
     \<lparr> Department = name, Students = Finite students, Faculty = Finite faculty,
       Budget = Finite budget, Student_Faculty_Ratio = None, Budget_per_Student = None \<rparr>"

definition sampleData :: "Department list" where
  "sampleData =
     [ department ''Computer Science'' 450 12 2000000,
       department ''Mathematics'' 300 10 1500000,
       department ''Physics'' 200 8 1800000,
       department ''Chemistry'' 250 9 1700000,
       department ''Biology'' 350 11 1900000,
       department ''Engineering'' 500 15 2500000,
       department ''Psychology'' 400 10 1600000,
       department ''Economics'' 350 9 1400000 ]"

definition loadSampleData :: "Department AppState \<Rightarrow> Department AppState" where
  "loadSampleData st = st \<lparr> data := analyzeDepartmentData sampleData \<rparr>"

section \<open>The request for insights\<close>

text \<open>
  The rows of \<open>data\<close> as they are when the program runs. The file upload casts the
  output of the parser to \<open>Department[]\<close> without a check
  (\<open>results.data as Department[]\<close>), so a cell of a base column holds what the
  parser, with \<open>dynamicTyping\<close>, made of the text of the cell: a number, a boolean,
  \<open>null\<close>, a \<open>Date\<close>, or the text itself, a string; and it is \<open>undefined\<close> in a
  row without the column. A \<open>Date\<close> is given by the string that the operator \<open>+\<close>
  and a template literal convert it to.
\<close>

datatype cell =
    CUndefined
  | CNull
  | CBoolean bool
  | CNumber number
  | CString string
  | CDate string

text \<open>
  The two derived properties of a row are results of the divisions of
  \<open>analyzeDepartmentData\<close>, so they are numbers whatever the cells hold (\<open>None\<close> is
  the absent property).
\<close>

record Row =
  DepartmentCell :: cell
  StudentsCell :: cell
  FacultyCell :: cell
  BudgetCell :: cell
  Student_Faculty_Ratio_Cell :: "number option"
  Budget_per_Student_Cell :: "number option"

text \<open>The row of a record that has the types of the interface.\<close>

definition toRow :: "Department \<Rightarrow> Row" where
  "toRow dept =
     \<lparr> DepartmentCell = CString (Department dept),
       StudentsCell = CNumber (Students dept),
       FacultyCell = CNumber (Faculty dept),
       BudgetCell = CNumber (Budget dept),
       Student_Faculty_Ratio_Cell = Student_Faculty_Ratio dept,
       Budget_per_Student_Cell = Budget_per_Student dept \<rparr>"

text \<open>
  The number that the operator \<open>+\<close> converts a value to, when the value is neither a
  string nor a \<open>Date\<close> (\<open>None\<close> for these two), and the string that \<open>+\<close> and a
  template literal convert a value to.
\<close>

fun cellNumber :: "cell \<Rightarrow> number option" where
  "cellNumber CUndefined = Some NaN"
| "cellNumber CNull = Some (Finite 0)"
| "cellNumber (CBoolean b) = Some (Finite (if b then 1 else 0))"
| "cellNumber (CNumber x) = Some x"
| "cellNumber (CString s) = None"
| "cellNumber (CDate s) = None"

fun cellString :: "cell \<Rightarrow> string" where
  "cellString CUndefined = ''undefined''"
| "cellString CNull = ''null''"
| "cellString (CBoolean b) = (if b then ''true'' else ''false'')"
| "cellString (CNumber x) = numberToString x"
| "cellString (CString s) = s"
| "cellString (CDate s) = s"

text \<open>
  The operator \<open>+\<close>: the sum of two numbers when neither operand is a string or a
  \<open>Date\<close>, and the concatenation of two strings otherwise.
\<close>

definition addition :: "cell \<Rightarrow> cell \<Rightarrow> cell" where
  "addition x y =
     (case (cellNumber x, cellNumber y) of
        (Some a, Some b) \<Rightarrow> CNumber (Number_add a b)
      | _ \<Rightarrow> CString (cellString x @ cellString y))"

text \<open>\<open>x || 0\<close> for an optional number: \<open>undefined\<close>, the zeros and \<open>NaN\<close> are falsy.\<close>

fun orZero :: "number option \<Rightarrow> number" where
  "orZero None = Finite 0"
| "orZero (Some x) = (if x = NaN \<or> isZero x then Finite 0 else x)"

text \<open>
  The three constants of the \<open>try\<close> block and the template literal of the message.
  \<open>totalStudents\<close> and \<open>totalBudget\<close> are sums by \<open>+\<close> from the number \<open>0\<close>: a
  number, or a string from the first cell on that is a string or a \<open>Date\<close>.
  \<open>avgRatio\<close> is a number. \<open>totalBudget.toFixed\<close> is a function only when
  \<open>totalBudget\<close> is a number: for a string the property is \<open>undefined\<close>, and the
  call raises a \<open>TypeError\<close>.
\<close>

definition prompt :: "Row list \<Rightarrow> exn + string" where
  "prompt rows =
     (let totalStudents =
            foldl (\<lambda>acc dept. addition acc (StudentsCell dept)) (CNumber (Finite 0)) rows;
          avgRatio =
            Number_divide
              (foldl (\<lambda>acc dept. Number_add acc (orZero (Student_Faculty_Ratio_Cell dept)))
                     (Finite 0) rows)
              (Finite (of_nat (length rows)));
          totalBudget =
            foldl (\<lambda>acc dept. addition acc (BudgetCell dept)) (CNumber (Finite 0)) rows
      in case totalBudget of
           CNumber budget \<Rightarrow>
             Inr (''Analyze this university data and provide strategic insights:''
                  @ [CHR 0x0A] @ replicate 14 CHR '' '' @ ''- Total students: ''
                  @ cellString totalStudents
                  @ [CHR 0x0A] @ replicate 14 CHR '' '' @ ''- Average student-faculty ratio: ''
                  @ toFixed 1 avgRatio
                  @ [CHR 0x0A] @ replicate 14 CHR '' '' @ ''- Total budget: $''
                  @ toFixed 2 budget
                  @ [CHR 0x0A] @ replicate 14 CHR '' ''
                  @ ''What are the key challenges and opportunities?'')
         | _ \<Rightarrow> Inl TypeError)"

text \<open>
  The arguments of \<open>fetch\<close>: the URL and the options \<open>method\<close> (here
  \<open>requestMethod\<close>), \<open>headers\<close> and \<open>body\<close>, the latter as the value given to
  \<open>JSON.stringify\<close>, for a given text of the message.
\<close>

record request =
  url :: string
  requestMethod :: string
  headers :: "(string \<times> string) list"
  body :: jsvalue

definition insightRequest :: "string \<Rightarrow> string \<Rightarrow> request" where
  "insightRequest key content =
     \<lparr> url = ''https://api.openai.com/v1/chat/completions'',
       requestMethod = ''POST'',
       headers = [(''Content-Type'', ''application/json''),
                  (''Authorization'', ''Bearer '' @ key)],
       body = JObject
                [(''model'', JString ''gpt-3.5-turbo''),
                 (''messages'',
                    JArray [JObject [(''role'', JString ''user''),
                                     (''content'', JString content)]])] \<rparr>"

text \<open>
  What \<open>fetch\<close> gives: a rejected promise (a network error), or a response with its
  status and its body. \<open>json\<close> is the result of \<open>response.json()\<close>: \<open>None\<close> when the
  body is not a JSON document, and the promise is rejected.
\<close>

datatype response = Response (status: nat) (json: "jsvalue option")

datatype fetchResult = Rejected | Resolved response

text \<open>
  Reading the property \<open>k\<close> of a value, for the keys the program reads (\<open>choices\<close>,
  \<open>0\<close>, \<open>message\<close>, \<open>content\<close>; none of them is a property of a prototype object).
  Reading a property of \<open>undefined\<close> or \<open>null\<close> raises a \<open>TypeError\<close>; an absent
  property reads as \<open>undefined\<close>; the elements of an array and the characters of a
  string are the properties named by the decimal numerals below the length.
\<close>

fun getProperty :: "jsvalue \<Rightarrow> string \<Rightarrow> exn + jsvalue" where
  "getProperty JUndefined k = Inl TypeError"
| "getProperty JNull k = Inl TypeError"
| "getProperty (JObject props) k =
     Inr (case map_of props k of None \<Rightarrow> JUndefined | Some v \<Rightarrow> v)"
| "getProperty (JArray xs) k =
     Inr (if k = ''length'' then JNumber (Finite (of_nat (length xs)))
          else case find (\<lambda>i. decimal i = k) [0..<length xs] of
                 None \<Rightarrow> JUndefined
               | Some i \<Rightarrow> xs ! i)"
| "getProperty (JString s) k =
     Inr (if k = ''length'' then JNumber (Finite (of_nat (length s)))
          else case find (\<lambda>i. decimal i = k) [0..<length s] of
                 None \<Rightarrow> JUndefined
               | Some i \<Rightarrow> JString [s ! i])"
| "getProperty (JBoolean b) k = Inr JUndefined"
| "getProperty (JNumber n) k = Inr JUndefined"

text \<open>The expression \<open>result.choices[0].message.content\<close>.\<close>

definition firstChoiceContent :: "jsvalue \<Rightarrow> exn + jsvalue" where
  "firstChoiceContent result =
     (case getProperty result ''choices'' of
        Inl e \<Rightarrow> Inl e
      | Inr choices \<Rightarrow>
     (case getProperty choices ''0'' of
        Inl e \<Rightarrow> Inl e
      | Inr choice \<Rightarrow>
     (case getProperty choice ''message'' of
        Inl e \<Rightarrow> Inl e
      | Inr message \<Rightarrow> getProperty message ''content'')))"

definition fallback :: string where
  "fallback = ''Error getting AI insights. Please try again later.''"

text \<open>
  The \<open>try\<close> block of \<open>getAiInsights\<close>: \<open>Inl\<close> is a raised exception. The message is
  built first, as an argument of \<open>fetch\<close>: when that raises, \<open>fetch\<close> is not called.
\<close>

definition tryBlock ::
  "(request \<Rightarrow> fetchResult) \<Rightarrow> string \<Rightarrow> Row AppState \<Rightarrow> exn + Row AppState" where
  "tryBlock fetch key st =
     (case prompt (data st) of
        Inl e \<Rightarrow> Inl e
      | Inr content \<Rightarrow>
     (case fetch (insightRequest key content) of
        Rejected \<Rightarrow> Inl TypeError
      | Resolved response \<Rightarrow>
          (case json response of
             None \<Rightarrow> Inl SyntaxError
           | Some result \<Rightarrow>
               (case firstChoiceContent result of
                  Inl e \<Rightarrow> Inl e
                | Inr content \<Rightarrow> Inr (st \<lparr> aiInsight := content \<rparr>)))))"

text \<open>
  \<open>getAiInsights\<close>, given the function \<open>fetch\<close> and the text of the API key of the
  build: the result is the state after the call, or the exception the call ends with.
  Only the \<open>try\<close> block can raise, and what it raises is caught.
\<close>

definition getAiInsights ::
  "(request \<Rightarrow> fetchResult) \<Rightarrow> string \<Rightarrow> Row AppState \<Rightarrow> exn + Row AppState" where
  "getAiInsights fetch key st =
     (let st1 = st \<lparr> loading := True \<rparr>;
          st2 = (case tryBlock fetch key st1 of
                   Inl e \<Rightarrow> st1 \<lparr> aiInsight := JString fallback \<rparr>
                 | Inr st' \<Rightarrow> st')
      in Inr (st2 \<lparr> loading := False \<rparr>))"

section \<open>Rounding to binary64\<close>

text \<open>The exponent found by \<open>floorlog_rat\<close> is the right one, and the only one.\<close>

lemma floorlog_rat_bounds:
  assumes b: "1 < b" and a: "0 < a"
  shows "of_nat b powi floorlog_rat b a \<le> a \<and> a < of_nat b powi (floorlog_rat b a + 1)"
proof (cases "1 \<le> a")
  case True
  define n where "n = nat \<lfloor>a\<rfloor>"
  define L where "L = floorlog b n"
  have fa: "1 \<le> \<lfloor>a\<rfloor>" using True by (simp add: le_floor_iff)
  then have n0: "0 < n" by (simp add: n_def)
  have na: "rat_of_nat n = of_int \<lfloor>a\<rfloor>" using fa by (simp add: n_def)
  have L0: "0 < L" using n0 b by (simp add: L_def floorlog_def)
  have bnd: "b ^ (L - 1) \<le> n \<and> n < b ^ L"
    unfolding L_def using floorlog_bounds [OF n0 b] .
  have fl: "floorlog_rat b a = int L - 1"
    using True by (simp add: floorlog_rat_def n_def L_def)
  have p1: "rat_of_nat b powi (int L - 1) = of_nat (b ^ (L - 1))"
    using L0 by (simp add: power_int_def nat_diff_distrib')
  have p2: "rat_of_nat b powi (int L - 1 + 1) = of_nat (b ^ L)"
    by (simp add: power_int_def)
  have lo: "rat_of_nat (b ^ (L - 1)) \<le> a"
  proof -
    have "rat_of_nat (b ^ (L - 1)) \<le> of_nat n" using bnd of_nat_le_iff by blast
    also have "\<dots> \<le> a" by (simp add: na)
    finally show ?thesis .
  qed
  have hi: "a < rat_of_nat (b ^ L)"
  proof -
    have "a < of_int \<lfloor>a\<rfloor> + 1" by linarith
    also have "\<dots> = rat_of_nat (n + 1)" by (simp add: na)
    also have "\<dots> \<le> rat_of_nat (b ^ L)" using bnd of_nat_le_iff by (metis Suc_eq_plus1 Suc_leI)
    finally show ?thesis .
  qed
  show ?thesis unfolding fl p1 p2 using lo hi by simp
next
  case False
  define r where "r = 1 / a"
  define m where "m = \<lceil>r\<rceil>"
  define k where "k = nat (m - 1)"
  define L where "L = floorlog b k"
  have r1: "1 < r" using False a by (simp add: r_def)
  have m2: "2 \<le> m" unfolding m_def using r1 by (simp add: le_ceiling_iff)
  have k0: "0 < k" using m2 by (simp add: k_def)
  have km: "int k = m - 1" using m2 by (simp add: k_def)
  have L0: "0 < L" using k0 b by (simp add: L_def floorlog_def)
  have bnd: "b ^ (L - 1) \<le> k \<and> k < b ^ L"
    unfolding L_def using floorlog_bounds [OF k0 b] .
  have fl: "floorlog_rat b a = - int L"
    using False by (simp add: floorlog_rat_def L_def k_def m_def r_def)
  have bpos: "0 < rat_of_nat b" using b by simp
  have rle: "r \<le> rat_of_nat (b ^ L)"
  proof -
    have "r \<le> of_int m" unfolding m_def by simp
    also have "\<dots> = rat_of_nat (k + 1)" using km by simp
    also have "\<dots> \<le> rat_of_nat (b ^ L)" using bnd of_nat_le_iff by (metis Suc_eq_plus1 Suc_leI)
    finally show ?thesis .
  qed
  have rgt: "rat_of_nat (b ^ (L - 1)) < r"
  proof -
    have "rat_of_nat (b ^ (L - 1)) \<le> of_nat k" using bnd of_nat_le_iff by blast
    also have "\<dots> = of_int (m - 1)" using km by (metis of_int_of_nat_eq)
    also have "\<dots> < r" unfolding m_def by linarith
    finally show ?thesis .
  qed
  have p1: "rat_of_nat b powi (- int L) = 1 / of_nat (b ^ L)"
    by (simp add: power_int_def field_simps)
  have p2: "rat_of_nat b powi (- int L + 1) = 1 / of_nat (b ^ (L - 1))"
    using L0 by (simp add: power_int_def field_simps nat_diff_distrib')
  have bL: "0 < rat_of_nat (b ^ L)" and bL1: "0 < rat_of_nat (b ^ (L - 1))" using b by simp_all
  have ar: "a = 1 / r" using a by (simp add: r_def)
  have rpos: "0 < r" using r1 by simp
  have lo: "1 / rat_of_nat (b ^ L) \<le> a"
    unfolding ar using rle rpos bL by (simp add: frac_le)
  have hi: "a < 1 / rat_of_nat (b ^ (L - 1))"
    unfolding ar using rgt rpos bL1 by (simp add: frac_less2)
  show ?thesis unfolding fl p1 p2 using lo hi by simp
qed

lemma near_int_ge:
  fixes x :: rat
  assumes "2 * \<bar>x - of_int m\<bar> \<le> 1" and "of_int k \<le> x"
  shows "k \<le> m"
proof -
  have "x - of_int m < 1" using assms(1) by (simp add: abs_if split: if_splits)
  then have "rat_of_int k < of_int m + 1" using assms(2) by simp
  then have "rat_of_int k < of_int (m + 1)" by simp
  then have "k < m + 1" by (simp only: of_int_less_iff)
  then show ?thesis by simp
qed

lemma near_int_le:
  fixes x :: rat
  assumes "2 * \<bar>x - of_int m\<bar> \<le> 1" and "x \<le> of_int k"
  shows "m \<le> k"
proof -
  have "of_int m - x < 1" using assms(1) by (simp add: abs_if split: if_splits)
  then have "rat_of_int m < of_int k + 1" using assms(2) by simp
  then have "rat_of_int m < of_int (k + 1)" by simp
  then have "m < k + 1" by (simp only: of_int_less_iff)
  then show ?thesis by simp
qed

lemma floorlog_rat_eqI:
  assumes b: "1 < b" and lo: "of_nat b powi e \<le> a" and hi: "a < of_nat b powi (e + 1)"
  shows "floorlog_rat b a = e"
proof -
  have B: "1 \<le> rat_of_nat b" using b by simp
  have "0 < rat_of_nat b powi e" using b by simp
  then have a: "0 < a" using lo by linarith
  define f where "f = floorlog_rat b a"
  have bnd: "of_nat b powi f \<le> a \<and> a < of_nat b powi (f + 1)"
    unfolding f_def by (rule floorlog_rat_bounds [OF b a])
  have "\<not> e + 1 \<le> f"
  proof
    assume "e + 1 \<le> f"
    then have "rat_of_nat b powi (e + 1) \<le> of_nat b powi f"
      using B by (rule power_int_increasing)
    then show False using bnd hi by linarith
  qed
  moreover have "\<not> f + 1 \<le> e"
  proof
    assume "f + 1 \<le> e"
    then have "rat_of_nat b powi (f + 1) \<le> of_nat b powi e"
      using B by (rule power_int_increasing)
    then show False using bnd lo by linarith
  qed
  ultimately show ?thesis unfolding f_def by linarith
qed

lemma roundTiesToEven_eqI:
  assumes "2 * \<bar>r - of_int m\<bar> < 1"
  shows "roundTiesToEven r = m"
proof (cases "of_int m \<le> r")
  case True
  then have f: "\<lfloor>r\<rfloor> = m" using assms by (simp add: floor_eq_iff) 
  show ?thesis using assms True by (simp add: roundTiesToEven_def f Let_def)
next
  case False
  then have f: "\<lfloor>r\<rfloor> = m - 1" using assms by (simp add: floor_eq_iff)
  show ?thesis using assms False by (simp add: roundTiesToEven_def f Let_def)
qed

lemma roundToDouble_eqI:
  assumes lo: "2 powi e \<le> \<bar>q\<bar>" and hi: "\<bar>q\<bar> < 2 powi (e + 1)"
    and e1: "- 1022 \<le> e" and e2: "e \<le> 1022"
    and m: "2 * \<bar>\<bar>q\<bar> / 2 powi (e - 52) - of_int m\<bar> < 1"
  shows "roundToDouble q = Finite (sgn q * (of_int m * 2 powi (e - 52)))"
proof -
  define u :: rat where "u = 2 powi (e - 52)"
  have u0: "0 < u" by (simp add: u_def)
  have "0 < (2::rat) powi e" by simp
  then have "0 < \<bar>q\<bar>" using lo by (rule less_le_trans)
  then have q0: "q \<noteq> 0" by simp
  have fl: "floorlog_rat 2 \<bar>q\<bar> = e"
    using lo hi by (intro floorlog_rat_eqI) simp_all
  have mx: "max e (- 1022) = e" using e1 by simp
  have rt: "roundTiesToEven (\<bar>q\<bar> / u) = m"
    using m unfolding u_def by (rule roundTiesToEven_eqI)
  have pe: "(2::rat) powi e = 2 ^ 52 * u"
    unfolding u_def by (simp add: power_int_diff)
  have pe1: "(2::rat) powi (e + 1) = 2 ^ 53 * u"
    unfolding u_def by (simp add: power_int_diff power_int_add)
  define x where "x = \<bar>q\<bar> / u"
  have s1: "2 ^ 52 \<le> x" using lo u0 unfolding pe x_def by (simp add: pos_le_divide_eq)
  have s2: "x < 2 ^ 53" using hi u0 unfolding pe1 x_def by (simp add: pos_divide_less_eq)
  have m': "2 * \<bar>x - of_int m\<bar> < 1" using m by (simp add: u_def x_def)
  have m'': "2 * \<bar>x - of_int m\<bar> \<le> 1" using m' by simp
  have m1: "2 ^ 52 \<le> m" using s1 by (intro near_int_ge [OF m'']) simp
  have m2: "m \<le> 2 ^ 53" using s2 by (intro near_int_le [OF m'']) simp
  have m0: "m \<noteq> 0" using m1 by auto
  have "rat_of_int m \<le> rat_of_int (2 ^ 53)" using m2 by (simp only: of_int_le_iff)
  then have "rat_of_int m \<le> 2 ^ 53" by simp
  then have "rat_of_int m * u \<le> 2 ^ 53 * u"
    using u0 by (intro mult_right_mono) simp_all
  also have "\<dots> = 2 powi (e + 1)" by (simp add: pe1)
  also have "\<dots> \<le> 2 powi 1023" using e2 by (intro power_int_increasing) simp_all
  also have "\<dots> < 2 powi 1024" by (intro power_int_strict_increasing) simp_all
  finally have nov: "\<not> 2 powi 1024 \<le> rat_of_int m * u" by simp
  show ?thesis
    unfolding roundToDouble_def Let_def fl mx u_def [symmetric] rt
    using q0 m0 nov by (simp add: sgn_if)
qed


lemma roundTiesToEven_near: "2 * \<bar>r - of_int (roundTiesToEven r)\<bar> \<le> 1"
proof -
  define f where "f = \<lfloor>r\<rfloor>"
  have b: "of_int f \<le> r" "r < of_int f + 1" unfolding f_def by linarith+
  show ?thesis
    unfolding roundTiesToEven_def Let_def f_def [symmetric]
    using b by (auto simp: abs_if)
qed

text \<open>
  In the range of the normal binary64 numbers the rounded value is a finite number,
  within a relative error of \<open>2^-53\<close> of the exact one.
\<close>

lemma roundToDouble_error:
  assumes lo: "2 powi (- 1022) \<le> \<bar>q\<bar>" and hi: "\<bar>q\<bar> \<le> (2 ^ 53 - 1) * 2 ^ 971"
  shows "\<exists>r. roundToDouble q = Finite r \<and> \<bar>r - q\<bar> \<le> \<bar>q\<bar> / 2 ^ 53"
proof -
  define a where "a = \<bar>q\<bar>"
  have "0 < (2::rat) powi (- 1022)" by (rule zero_less_power_int) simp
  then have a0: "0 < a" using lo unfolding a_def by (rule less_le_trans)
  then have q0: "q \<noteq> 0" by (auto simp: a_def)
  define e where "e = floorlog_rat 2 a"
  have bnd: "2 powi e \<le> a \<and> a < 2 powi (e + 1)"
    using floorlog_rat_bounds [of 2 a] a0 by (simp add: e_def)
  have e1: "- 1022 \<le> e"
  proof (rule ccontr)
    assume "\<not> - 1022 \<le> e"
    then have "e + 1 \<le> - 1022" by simp
    then have "(2::rat) powi (e + 1) \<le> 2 powi (- 1022)"
      by (rule power_int_increasing) simp
    then show False using bnd lo by (simp add: a_def)
  qed
  have top: "(2 ^ 53 - 1) * 2 ^ 971 < (2::rat) powi 1024" by simp
  have e2: "e \<le> 1023"
  proof (rule ccontr)
    assume "\<not> e \<le> 1023"
    then have "1024 \<le> e" by simp
    then have "(2::rat) powi 1024 \<le> 2 powi e"
      by (rule power_int_increasing) simp
    then show False using bnd hi top unfolding a_def by linarith
  qed
  define u :: rat where "u = 2 powi (e - 52)"
  have u0: "0 < u" by (simp add: u_def)
  define x where "x = a / u"
  define m where "m = roundTiesToEven x"
  have mx: "2 * \<bar>x - of_int m\<bar> \<le> 1" unfolding m_def by (rule roundTiesToEven_near)
  have pe: "(2::rat) powi e = 2 ^ 52 * u"
    unfolding u_def by (simp add: power_int_diff)
  have pe1: "(2::rat) powi (e + 1) = 2 ^ 53 * u"
    unfolding u_def by (simp add: power_int_diff power_int_add)
  have s1: "2 ^ 52 \<le> x" using bnd u0 unfolding pe x_def by (simp add: pos_le_divide_eq)
  have s2: "x < 2 ^ 53" using bnd u0 unfolding pe1 x_def by (simp add: pos_divide_less_eq)
  have m1: "2 ^ 52 \<le> m" using s1 by (intro near_int_ge [OF mx]) simp
  have m0: "m \<noteq> 0" using m1 by auto
  have nov: "\<not> 2 powi 1024 \<le> rat_of_int m * u"
  proof (cases "e \<le> 1022")
    case True
    have m2: "m \<le> 2 ^ 53" using s2 by (intro near_int_le [OF mx]) simp
    have "rat_of_int m \<le> rat_of_int (2 ^ 53)" using m2 by (simp only: of_int_le_iff)
    then have "rat_of_int m \<le> 2 ^ 53" by simp
    then have "rat_of_int m * u \<le> 2 ^ 53 * u"
      using u0 by (intro mult_right_mono) simp_all
    also have "\<dots> = 2 powi (e + 1)" by (simp add: pe1)
    also have "\<dots> \<le> 2 powi 1023" using True by (intro power_int_increasing) simp_all
    also have "\<dots> < 2 powi 1024" by (intro power_int_strict_increasing) simp_all
    finally show ?thesis by simp
  next
    case False
    then have e: "e = 1023" using e2 by simp
    have u: "u = 2 ^ 971" by (simp add: u_def e)
    have "x \<le> 2 ^ 53 - 1" using hi unfolding x_def a_def [symmetric] u by (simp add: pos_divide_le_eq)
    then have m2: "m \<le> 2 ^ 53 - 1" by (intro near_int_le [OF mx]) simp
    have "rat_of_int m \<le> rat_of_int (2 ^ 53 - 1)" using m2 by (simp only: of_int_le_iff)
    then have "rat_of_int m \<le> 2 ^ 53 - 1" by simp
    then have "rat_of_int m * u \<le> (2 ^ 53 - 1) * u"
      using u0 by (intro mult_right_mono) simp_all
    also have "\<dots> < 2 powi 1024" unfolding u by simp
    finally show ?thesis by simp
  qed
  have mxe: "max e (- 1022) = e" using e1 by simp
  have rd: "roundToDouble q = Finite (if 0 < q then of_int m * u else - (of_int m * u))"
    unfolding roundToDouble_def Let_def a_def [symmetric] e_def [symmetric] mxe
      u_def [symmetric] x_def [symmetric] m_def [symmetric]
    using q0 m0 nov by simp
  have au: "a = x * u" using u0 by (simp add: x_def)
  have "\<bar>of_int m * u - a\<bar> = \<bar>of_int m - x\<bar> * u"
    unfolding au using u0 by (simp add: abs_mult flip: left_diff_distrib)
  also have "\<dots> \<le> (1 / 2) * u"
    using mx u0 by (intro mult_right_mono) (simp_all add: abs_minus_commute)
  also have "\<dots> = 2 powi e / 2 ^ 53" by (simp add: pe)
  also have "\<dots> \<le> a / 2 ^ 53" using bnd by (simp add: divide_right_mono)
  finally have err: "\<bar>of_int m * u - a\<bar> \<le> a / 2 ^ 53" .
  define M where "M = rat_of_int m * u"
  have "\<bar>(if 0 < q then M else - M) - q\<bar> = \<bar>M - a\<bar>"
  proof (cases "0 < q")
    case True
    then show ?thesis by (simp add: a_def)
  next
    case False
    then have "- M - q = - (M - a)" by (simp add: a_def)
    then have "\<bar>- M - q\<bar> = \<bar>M - a\<bar>" by (simp only: abs_minus_cancel)
    then show ?thesis using False by simp
  qed
  then have fin: "\<bar>(if 0 < q then M else - M) - q\<bar> \<le> \<bar>q\<bar> / 2 ^ 53"
    using err unfolding M_def a_def by (simp only:)
  have "roundToDouble q = Finite (if 0 < q then M else - M)"
    using rd unfolding M_def .
  then show ?thesis using fin by blast
qed

text \<open>
  In the range of the normal numbers the result is the rounded significand at the
  exponent of the argument; a tie goes to the even significand; a number with a
  significand of 53 bits is its own rounding.
\<close>

lemma roundTiesToEven_tie:
  assumes "2 * r = 2 * of_int f + 1"
  shows "roundTiesToEven r = (if even f then f else f + 1)"
proof -
  have r: "r = of_int f + 1 / 2" using assms by simp
  have fl: "\<lfloor>r\<rfloor> = f" unfolding r by (simp add: floor_eq_iff)
  have d: "r - of_int f = 1 / 2" using r by simp
  show ?thesis unfolding roundTiesToEven_def Let_def fl d by simp
qed

lemma roundToDouble_normal:
  assumes lo: "2 powi e \<le> \<bar>q\<bar>" and hi: "\<bar>q\<bar> < 2 powi (e + 1)"
    and e1: "- 1022 \<le> e" and e2: "e \<le> 1022"
  shows "roundToDouble q =
           Finite (sgn q * (of_int (roundTiesToEven (\<bar>q\<bar> / 2 powi (e - 52))) * 2 powi (e - 52)))"
proof -
  define u :: rat where "u = 2 powi (e - 52)"
  define m where "m = roundTiesToEven (\<bar>q\<bar> / u)"
  have u0: "0 < u" by (simp add: u_def)
  have "0 < (2::rat) powi e" by simp
  then have "0 < \<bar>q\<bar>" using lo by (rule less_le_trans)
  then have q0: "q \<noteq> 0" by simp
  have fl: "floorlog_rat 2 \<bar>q\<bar> = e"
    using lo hi by (intro floorlog_rat_eqI) simp_all
  have mx: "max e (- 1022) = e" using e1 by simp
  have pe: "(2::rat) powi e = 2 ^ 52 * u"
    unfolding u_def by (simp add: power_int_diff)
  have pe1: "(2::rat) powi (e + 1) = 2 ^ 53 * u"
    unfolding u_def by (simp add: power_int_diff power_int_add)
  define x where "x = \<bar>q\<bar> / u"
  have s1: "2 ^ 52 \<le> x" using lo u0 unfolding pe x_def by (simp add: pos_le_divide_eq)
  have s2: "x < 2 ^ 53" using hi u0 unfolding pe1 x_def by (simp add: pos_divide_less_eq)
  have m'': "2 * \<bar>x - of_int m\<bar> \<le> 1"
    unfolding m_def x_def by (rule roundTiesToEven_near)
  have m1: "2 ^ 52 \<le> m" using s1 by (intro near_int_ge [OF m'']) simp
  have m2: "m \<le> 2 ^ 53" using s2 by (intro near_int_le [OF m'']) simp
  have m0: "m \<noteq> 0" using m1 by auto
  have "rat_of_int m \<le> rat_of_int (2 ^ 53)" using m2 by (simp only: of_int_le_iff)
  then have "rat_of_int m \<le> 2 ^ 53" by simp
  then have "rat_of_int m * u \<le> 2 ^ 53 * u"
    using u0 by (intro mult_right_mono) simp_all
  also have "\<dots> = 2 powi (e + 1)" by (simp add: pe1)
  also have "\<dots> \<le> 2 powi 1023" using e2 by (intro power_int_increasing) simp_all
  also have "\<dots> < 2 powi 1024" by (intro power_int_strict_increasing) simp_all
  finally have nov: "\<not> 2 powi 1024 \<le> rat_of_int m * u" by simp
  show ?thesis
    unfolding roundToDouble_def Let_def fl mx u_def [symmetric] m_def [symmetric]
    using q0 m0 nov by (simp add: sgn_if)
qed

lemma roundToDouble_tieI:
  assumes lo: "2 powi e \<le> \<bar>q\<bar>" and hi: "\<bar>q\<bar> < 2 powi (e + 1)"
    and e1: "- 1022 \<le> e" and e2: "e \<le> 1022"
    and t: "2 * (\<bar>q\<bar> / 2 powi (e - 52)) = 2 * of_int f + 1"
  shows "roundToDouble q =
           Finite (sgn q * (of_int (if even f then f else f + 1) * 2 powi (e - 52)))"
  unfolding roundToDouble_normal [OF lo hi e1 e2] roundTiesToEven_tie [OF t] ..

lemma roundToDouble_exact:
  assumes "2 ^ 52 \<le> \<bar>m\<bar>" "\<bar>m\<bar> < 2 ^ 53" "- 1074 \<le> k" "k \<le> 970"
  shows "roundToDouble (of_int m * 2 powi k) = Finite (of_int m * 2 powi k)"
proof -
  let ?q = "of_int m * 2 powi k :: rat"
  have p: "0 < (2::rat) powi k" by (rule zero_less_power_int) simp
  have m0: "m \<noteq> 0" using assms(1) by auto
  have aq: "\<bar>?q\<bar> = of_int \<bar>m\<bar> * 2 powi k"
    using p by (simp add: abs_mult)
  have lo: "(2::rat) powi (k + 52) \<le> \<bar>?q\<bar>"
  proof -
    have "(2::rat) ^ 52 \<le> of_int \<bar>m\<bar>"
      using assms(1) by (metis of_int_le_iff of_int_numeral of_int_power)
    then have "(2::rat) ^ 52 * 2 powi k \<le> of_int \<bar>m\<bar> * 2 powi k"
      using p by (intro mult_right_mono) simp_all
    then show ?thesis by (simp add: aq power_int_add mult.commute)
  qed
  have hi: "\<bar>?q\<bar> < (2::rat) powi (k + 52 + 1)"
  proof -
    have "of_int \<bar>m\<bar> < (2::rat) ^ 53"
      using assms(2) by (metis of_int_less_iff of_int_numeral of_int_power)
    then have "of_int \<bar>m\<bar> * 2 powi k < (2::rat) ^ 53 * 2 powi k"
      using p by (intro mult_strict_right_mono) simp_all
    then show ?thesis by (simp add: aq power_int_add mult.commute)
  qed
  have d: "\<bar>?q\<bar> / 2 powi (k + 52 - 52) = of_int \<bar>m\<bar>"
    using p by (simp add: aq)
  have "roundToDouble ?q = Finite (sgn ?q * (of_int \<bar>m\<bar> * 2 powi (k + 52 - 52)))"
    using lo hi assms(3,4) d by (intro roundToDouble_eqI) simp_all
  moreover have "sgn ?q * (of_int \<bar>m\<bar> * 2 powi (k + 52 - 52)) = ?q"
  proof -
    have s: "sgn ?q = sgn (of_int m :: rat)" using p by (simp add: sgn_mult)
    have "sgn (of_int m :: rat) * (\<bar>of_int m\<bar> * 2 powi k) = of_int m * 2 powi k"
      by (simp only: mult.assoc [symmetric] sgn_mult_abs)
    then show ?thesis using s by simp
  qed
  ultimately show ?thesis by simp
qed

text \<open>The literal \<open>0.8\<close> as a binary64 value.\<close>

lemma roundToDouble_0_8: "roundToDouble (4 / 5) = Finite (3602879701896397 / 4503599627370496)"
  using roundToDouble_eqI [of "- 1" "4 / 5" 7205759403792794] by simp

section \<open>Fixed-point notation\<close>

lemma digit_0: "digit 0 = CHR ''0''"
  by (simp add: digit_def)

lemma floor_rat_numeral: "\<lfloor>numeral a / numeral b :: rat\<rfloor> = numeral a div numeral b"
  using floor_divide_of_int_eq [of "numeral a" "numeral b", where ?'a = rat] by simp

lemma decimal_small: "n < 10 \<Longrightarrow> decimal n = [digit n]"
  by (subst decimal.simps) simp

lemma decimal_step: "10 \<le> n \<Longrightarrow> decimal n = decimal (n div 10) @ [digit (n mod 10)]"
  by (subst decimal.simps) simp

lemma length_decimal: "0 < length (decimal n)"
  by (subst decimal.simps) simp

lemma toFixed_1_Finite:
  assumes "\<bar>q\<bar> < 10 ^ 21"
  shows "toFixed 1 (Finite q) =
           (let n = nat \<lfloor>\<bar>q\<bar> * 10 + 1 / 2\<rfloor>
            in (if q < 0 then ''-'' else []) @ decimal (n div 10) @ ''.'' @ [digit (n mod 10)])"
proof -
  define n where "n = nat \<lfloor>\<bar>q\<bar> * 10 + 1 / 2\<rfloor>"
  show ?thesis
  proof (cases "n < 10")
    case True
    then show ?thesis
      using assms by (simp add: toFixed_def Let_def decimal_small digit_0 flip: n_def)
  next
    case False
    then have st: "decimal n = decimal (n div 10) @ [digit (n mod 10)]"
      by (simp add: decimal_step)
    have "0 < length (decimal (n div 10))" by (rule length_decimal)
    then show ?thesis
      using assms by (simp add: toFixed_def Let_def st flip: n_def)
  qed
qed

lemma toFixed_2_Finite:
  assumes "\<bar>q\<bar> < 10 ^ 21"
  shows "toFixed 2 (Finite q) =
           (let n = nat \<lfloor>\<bar>q\<bar> * 100 + 1 / 2\<rfloor>
            in (if q < 0 then ''-'' else []) @ decimal (n div 100) @ ''.''
               @ [digit (n div 10 mod 10), digit (n mod 10)])"
proof -
  define n where "n = nat \<lfloor>\<bar>q\<bar> * 100 + 1 / 2\<rfloor>"
  consider "n < 10" | "10 \<le> n" "n < 100" | "100 \<le> n" by linarith
  then show ?thesis
  proof cases
    case 1
    then show ?thesis
      using assms by (simp add: toFixed_def Let_def decimal_small digit_0 flip: n_def)
  next
    case 2
    then have st: "decimal n = [digit (n div 10), digit (n mod 10)]"
      by (simp add: decimal_step decimal_small)
    from 2 have z: "n div 100 = 0" "n div 10 mod 10 = n div 10" by simp_all
    show ?thesis
      using assms 2 by (simp add: toFixed_def Let_def st z decimal_small digit_0 flip: n_def)
  next
    case 3
    then have "10 \<le> n div 10" by simp
    moreover have "n div 10 div 10 = n div 100" using div_mult2_eq [of n 10 10] by simp
    ultimately have st:
      "decimal n = decimal (n div 100) @ [digit (n div 10 mod 10), digit (n mod 10)]"
      using 3 by (simp add: decimal_step [of n] decimal_step [of "n div 10"])
    have "0 < length (decimal (n div 100))" by (rule length_decimal)
    then show ?thesis
      using assms by (simp add: toFixed_def Let_def st flip: n_def)
  qed
qed

lemma round_half_up_near:
  fixes a :: rat
  assumes "0 \<le> a"
  shows "\<bar>of_nat (nat \<lfloor>a + 1 / 2\<rfloor>) - a\<bar> \<le> 1 / 2"
proof -
  have "0 \<le> \<lfloor>a + 1 / 2\<rfloor>" using assms by simp
  then have "rat_of_nat (nat \<lfloor>a + 1 / 2\<rfloor>) = of_int \<lfloor>a + 1 / 2\<rfloor>" by simp
  moreover have "of_int \<lfloor>a + 1 / 2\<rfloor> \<le> a + 1 / 2" by (rule of_int_floor_le)
  moreover have "a + 1 / 2 < of_int \<lfloor>a + 1 / 2\<rfloor> + 1" by linarith
  ultimately show ?thesis by linarith
qed

section \<open>Exponent notation\<close>

text \<open>
  A number of magnitude \<open>10^21\<close> or more has its leading digit at the position 22 or
  above, the search for the digits keeps that position or the next one and gives an
  integer \<open>s\<close> of \<open>k\<close> digits, and from the position 22 on the digits are shown in
  exponent notation: the first digit, a point and the other digits if there are any,
  \<open>e+\<close> and the exponent, which is 21 or more.
\<close>

lemma floorlog_rat_10_large:
  assumes "10 ^ 21 \<le> q"
  shows "21 \<le> floorlog_rat 10 q"
proof (rule ccontr)
  assume "\<not> 21 \<le> floorlog_rat 10 q"
  then have "floorlog_rat 10 q + 1 \<le> 21" by simp
  then have "(10::rat) powi (floorlog_rat 10 q + 1) \<le> 10 powi 21"
    by (intro power_int_increasing) simp_all
  moreover have "0 < q" using assms by (rule less_le_trans [rotated]) simp
  then have "q < of_nat 10 powi (floorlog_rat 10 q + 1)"
    using floorlog_rat_bounds [of 10 q] by simp
  ultimately show False using assms by simp
qed

lemma candidates_snd:
  "c \<in> set (candidates x n0 k) \<Longrightarrow> snd c = n0 \<or> snd c = n0 + 1"
  by (auto simp add: candidates_def Let_def split: if_splits)

lemma closer_cases: "closer x k c1 c2 = c1 \<or> closer x k c1 c2 = c2"
  by (simp add: closer_def Let_def)

lemma foldl_closer_mem: "foldl (closer x k) c cs \<in> set (c # cs)"
proof (induction cs arbitrary: c)
  case Nil
  show ?case by simp
next
  case (Cons d cs)
  have "foldl (closer x k) (closer x k c d) cs \<in> set (closer x k c d # cs)"
    by (rule Cons.IH)
  then show ?case using closer_cases [of x k c d] by auto
qed

lemma shortest_exponent:
  "shortest x n0 fuel k = (s, n, k') \<Longrightarrow> n = n0 \<or> n = n0 + 1"
proof (induction fuel arbitrary: k)
  case 0
  then show ?case by simp
next
  case (Suc fuel)
  show ?case
  proof (cases "candidates x n0 k")
    case Nil
    then have "shortest x n0 fuel (Suc k) = (s, n, k')" using Suc.prems by simp
    then show ?thesis by (rule Suc.IH)
  next
    case (Cons c cs)
    then have "foldl (closer x k) c cs \<in> set (candidates x n0 k)"
      using foldl_closer_mem [of x k c cs] by simp
    then have "snd (foldl (closer x k) c cs) = n0 \<or> snd (foldl (closer x k) c cs) = n0 + 1"
      by (rule candidates_snd)
    moreover have "snd (foldl (closer x k) c cs) = n"
      using Suc.prems Cons by (auto simp add: split_def Let_def)
    ultimately show ?thesis by simp
  qed
qed

lemma formatDigits_exponent:
  assumes "22 \<le> n"
  shows "formatDigits (s, n, k) =
           (if k = 1 then decimal (nat s)
            else take 1 (decimal (nat s)) @ ''.'' @ drop 1 (decimal (nat s)))
           @ ''e+'' @ decimal (nat (n - 1))"
  using assms by (simp add: formatDigits_def Let_def)

lemma candidates_fst:
  "c \<in> set (candidates x n0 k) \<Longrightarrow> 10 ^ (k - 1) \<le> fst c \<and> fst c < 10 ^ k"
  by (auto simp add: candidates_def Let_def split: if_splits)

lemma floor_digits:
  assumes x: "0 < x" and k: "1 \<le> k"
  shows "10 ^ (k - 1) \<le> \<lfloor>x / 10 powi (floorlog_rat 10 x + 1 - int k)\<rfloor>
         \<and> \<lfloor>x / 10 powi (floorlog_rat 10 x + 1 - int k)\<rfloor> < 10 ^ k"
proof -
  define e where "e = floorlog_rat 10 x"
  define p :: rat where "p = 10 powi (e + 1 - int k)"
  have p0: "0 < p" unfolding p_def by (rule zero_less_power_int) simp
  have b: "10 powi e \<le> x" "x < 10 powi (e + 1)"
    using floorlog_rat_bounds [of 10 x] x by (simp_all add: e_def)
  have lo: "(10::rat) ^ (k - 1) * p = 10 powi e"
  proof -
    have a: "int k - 1 + (e + 1 - int k) = e" by simp
    have "(10::rat) ^ (k - 1) = 10 powi (int k - 1)"
      using k by (simp add: power_int_def nat_diff_distrib')
    moreover have "(10::rat) powi (int k - 1) * 10 powi (e + 1 - int k) =
                     10 powi (int k - 1 + (e + 1 - int k))"
      by (rule power_int_add [symmetric]) simp
    ultimately show ?thesis unfolding p_def a by simp
  qed
  have hi: "(10::rat) ^ k * p = 10 powi (e + 1)"
  proof -
    have a: "int k + (e + 1 - int k) = e + 1" by simp
    have "(10::rat) ^ k = 10 powi (int k)" by simp
    moreover have "(10::rat) powi (int k) * 10 powi (e + 1 - int k) =
                     10 powi (int k + (e + 1 - int k))"
      by (rule power_int_add [symmetric]) simp
    ultimately show ?thesis unfolding p_def a by simp
  qed
  have "(10::rat) ^ (k - 1) \<le> x / p"
    using b(1) p0 lo by (simp add: pos_le_divide_eq)
  then have "rat_of_int (10 ^ (k - 1)) \<le> x / p" by simp
  then have 1: "10 ^ (k - 1) \<le> \<lfloor>x / p\<rfloor>" by (simp only: le_floor_iff)
  have "x / p < (10::rat) ^ k"
    using b(2) p0 hi by (simp add: pos_divide_less_eq)
  then have "x / p < rat_of_int (10 ^ k)" by simp
  then have 2: "\<lfloor>x / p\<rfloor> < 10 ^ k" by (simp only: floor_less_iff)
  show ?thesis using 1 2 unfolding p_def e_def by simp
qed

lemma shortest_digits:
  assumes x: "0 < x"
  shows "1 \<le> k \<Longrightarrow> shortest x (floorlog_rat 10 x + 1) fuel k = (s, n, k') \<Longrightarrow>
           10 ^ (k' - 1) \<le> s \<and> s < 10 ^ k'"
proof (induction fuel arbitrary: k)
  case 0
  then show ?case using floor_digits [OF x, of k] by auto
next
  case (Suc fuel)
  let ?n0 = "floorlog_rat 10 x + 1"
  show ?case
  proof (cases "candidates x ?n0 k")
    case Nil
    then have "shortest x ?n0 fuel (Suc k) = (s, n, k')" using Suc.prems by simp
    then show ?thesis by (intro Suc.IH [of "Suc k"]) simp_all
  next
    case (Cons c cs)
    then have "foldl (closer x k) c cs \<in> set (candidates x ?n0 k)"
      using foldl_closer_mem [of x k c cs] by simp
    then have "10 ^ (k - 1) \<le> fst (foldl (closer x k) c cs)
               \<and> fst (foldl (closer x k) c cs) < 10 ^ k"
      by (rule candidates_fst)
    moreover have "fst (foldl (closer x k) c cs) = s \<and> k' = k"
      using Suc.prems Cons by (auto simp add: split_def Let_def)
    ultimately show ?thesis by simp
  qed
qed

lemma numberToString_large:
  assumes "10 ^ 21 \<le> q"
  shows "\<exists>s n (k::nat). 10 ^ (k - 1) \<le> s \<and> s < 10 ^ k \<and> 22 \<le> n
           \<and> numberToString (Finite q) =
               (if k = 1 then decimal (nat s)
                else take 1 (decimal (nat s)) @ ''.'' @ drop 1 (decimal (nat s)))
               @ ''e+'' @ decimal (nat (n - 1))"
proof -
  have q0: "0 < q" using assms by (rule less_le_trans [rotated]) simp
  define n0 where "n0 = floorlog_rat 10 q + 1"
  have n0: "22 \<le> n0" using floorlog_rat_10_large [OF assms] by (simp add: n0_def)
  obtain s n k where snk: "shortest q n0 17 1 = (s, n, k)"
    by (cases "shortest q n0 17 1") auto
  have n: "22 \<le> n" using shortest_exponent [OF snk] n0 by auto
  have d: "10 ^ (k - 1) \<le> s \<and> s < 10 ^ k"
    using shortest_digits [OF q0, of 1 17 s n k] snk by (simp add: n0_def)
  have "numberToString (Finite q) = formatDigits (s, n, k)"
    using q0 snk by (simp add: numberToString_def n0_def [symmetric])
  then have "10 ^ (k - 1) \<le> s \<and> s < 10 ^ k \<and> 22 \<le> n
           \<and> numberToString (Finite q) =
               (if k = 1 then decimal (nat s)
                else take 1 (decimal (nat s)) @ ''.'' @ drop 1 (decimal (nat s)))
               @ ''e+'' @ decimal (nat (n - 1))"
    using formatDigits_exponent [OF n, of s k] n d by simp
  then show ?thesis by blast
qed

lemma toFixed_exponent:
  assumes "10 ^ 21 \<le> \<bar>q\<bar>"
  shows "\<exists>s n (k::nat). 10 ^ (k - 1) \<le> s \<and> s < 10 ^ k \<and> 22 \<le> n
           \<and> toFixed f (Finite q) =
               (if q < 0 then ''-'' else [])
               @ (if k = 1 then decimal (nat s)
                  else take 1 (decimal (nat s)) @ ''.'' @ drop 1 (decimal (nat s)))
               @ ''e+'' @ decimal (nat (n - 1))"
proof -
  obtain s n and k :: nat where n: "10 ^ (k - 1) \<le> s \<and> s < 10 ^ k \<and> 22 \<le> n"
    and h: "numberToString (Finite \<bar>q\<bar>) =
               (if k = 1 then decimal (nat s)
                else take 1 (decimal (nat s)) @ ''.'' @ drop 1 (decimal (nat s)))
               @ ''e+'' @ decimal (nat (n - 1))"
    using numberToString_large [OF assms] by blast
  have "toFixed f (Finite q) = (if q < 0 then ''-'' else []) @ numberToString (Finite \<bar>q\<bar>)"
    using assms by (simp add: toFixed_def Let_def)
  then have "10 ^ (k - 1) \<le> s \<and> s < 10 ^ k \<and> 22 \<le> n
           \<and> toFixed f (Finite q) =
               (if q < 0 then ''-'' else [])
               @ (if k = 1 then decimal (nat s)
                  else take 1 (decimal (nat s)) @ ''.'' @ drop 1 (decimal (nat s)))
               @ ''e+'' @ decimal (nat (n - 1))"
    using n h by simp
  then show ?thesis by blast
qed

section \<open>The shape of the recommendations\<close>

text \<open>
  Neither statement of the callback raises: a comparison with an absent field is
  false, so \<open>toFixed\<close> is only called on a number. Each statement appends at most
  one message to the array.
\<close>

lemma Number_lessThan_NaN [simp]: "Number_lessThan x NaN = False" "Number_lessThan NaN y = False"
  by (simp_all add: Number_lessThan_def)

lemma highRatioRule_eq:
  "highRatioRule dept recommendations =
     Inr (recommendations @
       (if Number_lessThan (Finite 30) (ToNumber (Student_Faculty_Ratio dept))
        then [highRatioMessage (Department dept)
                (toFixed 1 (ToNumber (Student_Faculty_Ratio dept)))]
        else []))"
  by (cases "Student_Faculty_Ratio dept") (simp_all add: highRatioRule_def)

lemma lowBudgetRule_eq:
  "lowBudgetRule avg dept recommendations =
     Inr (recommendations @
       (if Number_lessThan (ToNumber (Budget_per_Student dept))
                           (Number_multiply avg (roundToDouble (8 / 10)))
        then [lowBudgetMessage (Department dept)
                (toFixed 2 (ToNumber (Budget_per_Student dept)))]
        else []))"
  by (cases "Budget_per_Student dept") (simp_all add: lowBudgetRule_def)

lemma forEach_append:
  assumes "\<And>s x. f s x = Inr (s @ g x)"
  shows "forEach f xs s = Inr (s @ concat (map g xs))"
  by (induction xs arbitrary: s) (simp_all add: assms)

lemma callback_eq:
  "callback departments recommendations dept =
     Inr (recommendations @
       ((if Number_lessThan (Finite 30) (ToNumber (Student_Faculty_Ratio dept))
         then [highRatioMessage (Department dept)
                 (toFixed 1 (ToNumber (Student_Faculty_Ratio dept)))]
         else [])
        @ (if Number_lessThan (ToNumber (Budget_per_Student dept))
                (Number_multiply (avgBudgetPerStudent departments) (roundToDouble (8 / 10)))
           then [lowBudgetMessage (Department dept)
                   (toFixed 2 (ToNumber (Budget_per_Student dept)))]
           else [])))"
  by (simp add: callback_def highRatioRule_eq lowBudgetRule_eq)

lemma generateRecommendations_concat:
  "generateRecommendations departments =
     Inr (concat (map (\<lambda>dept.
        (if Number_lessThan (Finite 30) (ToNumber (Student_Faculty_Ratio dept))
         then [highRatioMessage (Department dept)
                 (toFixed 1 (ToNumber (Student_Faculty_Ratio dept)))]
         else [])
        @ (if Number_lessThan (ToNumber (Budget_per_Student dept))
                (Number_multiply (avgBudgetPerStudent departments) (roundToDouble (8 / 10)))
           then [lowBudgetMessage (Department dept)
                   (toFixed 2 (ToNumber (Budget_per_Student dept)))]
           else [])) departments))"
  unfolding generateRecommendations_def
  using forEach_append [where f = "callback departments" and s = "[]", OF callback_eq]
  by simp

lemma Number_divide_zero:
  "isZero y \<Longrightarrow>
     Number_divide x y =
       (if x = NaN \<or> isZero x then NaN else infinity (negative x \<noteq> negative y))"
  by (cases y; cases x) (auto simp add: Number_divide_def Let_def)

section \<open>Evaluations\<close>

text \<open>
  The operations on the numbers of the examples below. Each exact result lies in the
  binade of the given exponent, and its quotient by the spacing of that binade is
  within one half of the given significand.
\<close>

lemma eval_divide_450_12: "Number_divide (Finite 450) (Finite 12) = Finite (75 / 2)"
  using roundToDouble_eqI [of "5" "450 / 12" 5277655813324800]
  by (simp add: Number_divide_def)

lemma eval_divide_2000000_450: "Number_divide (Finite 2000000) (Finite 450) = Finite (4886718345671111 / 1099511627776)"
  using roundToDouble_eqI [of "12" "2000000 / 450" 4886718345671111]
  by (simp add: Number_divide_def)

lemma eval_divide_300_10: "Number_divide (Finite 300) (Finite 10) = Finite 30"
  using roundToDouble_eqI [of "4" "300 / 10" 8444249301319680]
  by (simp add: Number_divide_def)

lemma eval_divide_1500000_300: "Number_divide (Finite 1500000) (Finite 300) = Finite 5000"
  using roundToDouble_eqI [of "12" "1500000 / 300" 5497558138880000]
  by (simp add: Number_divide_def)

lemma eval_divide_200_8: "Number_divide (Finite 200) (Finite 8) = Finite 25"
  using roundToDouble_eqI [of "4" "200 / 8" 7036874417766400]
  by (simp add: Number_divide_def)

lemma eval_divide_1800000_200: "Number_divide (Finite 1800000) (Finite 200) = Finite 9000"
  using roundToDouble_eqI [of "13" "1800000 / 200" 4947802324992000]
  by (simp add: Number_divide_def)

lemma eval_divide_250_9: "Number_divide (Finite 250) (Finite 9) = Finite (3909374676536889 / 140737488355328)"
  using roundToDouble_eqI [of "4" "250 / 9" 7818749353073778]
  by (simp add: Number_divide_def)

lemma eval_divide_1700000_250: "Number_divide (Finite 1700000) (Finite 250) = Finite 6800"
  using roundToDouble_eqI [of "12" "1700000 / 250" 7476679068876800]
  by (simp add: Number_divide_def)

lemma eval_divide_350_11: "Number_divide (Finite 350) (Finite 11) = Finite (8956021986248145 / 281474976710656)"
  using roundToDouble_eqI [of "4" "350 / 11" 8956021986248145]
  by (simp add: Number_divide_def)

lemma eval_divide_1900000_350: "Number_divide (Finite 1900000) (Finite 350) = Finite (5968777407926857 / 1099511627776)"
  using roundToDouble_eqI [of "12" "1900000 / 350" 5968777407926857]
  by (simp add: Number_divide_def)

lemma eval_divide_500_15: "Number_divide (Finite 500) (Finite 15) = Finite (4691249611844267 / 140737488355328)"
  using roundToDouble_eqI [of "5" "500 / 15" 4691249611844267]
  by (simp add: Number_divide_def)

lemma eval_divide_2500000_500: "Number_divide (Finite 2500000) (Finite 500) = Finite 5000"
  using roundToDouble_eqI [of "12" "2500000 / 500" 5497558138880000]
  by (simp add: Number_divide_def)

lemma eval_divide_400_10: "Number_divide (Finite 400) (Finite 10) = Finite 40"
  using roundToDouble_eqI [of "5" "400 / 10" 5629499534213120]
  by (simp add: Number_divide_def)

lemma eval_divide_1600000_400: "Number_divide (Finite 1600000) (Finite 400) = Finite 4000"
  using roundToDouble_eqI [of "11" "1600000 / 400" 8796093022208000]
  by (simp add: Number_divide_def)

lemma eval_divide_350_9: "Number_divide (Finite 350) (Finite 9) = Finite (1368281136787911 / 35184372088832)"
  using roundToDouble_eqI [of "5" "350 / 9" 5473124547151644]
  by (simp add: Number_divide_def)

lemma eval_divide_1400000_350: "Number_divide (Finite 1400000) (Finite 350) = Finite 4000"
  using roundToDouble_eqI [of "11" "1400000 / 350" 8796093022208000]
  by (simp add: Number_divide_def)

lemma eval_divide_30_1: "Number_divide (Finite 30) (Finite 1) = Finite 30"
  using roundToDouble_eqI [of "4" "30 / 1" 8444249301319680]
  by (simp add: Number_divide_def)

lemma eval_divide_90000_30: "Number_divide (Finite 90000) (Finite 30) = Finite 3000"
  using roundToDouble_eqI [of "11" "90000 / 30" 6597069766656000]
  by (simp add: Number_divide_def)

lemma eval_divide_301_10: "Number_divide (Finite 301) (Finite 10) = Finite (4236198399495373 / 140737488355328)"
  using roundToDouble_eqI [of "4" "301 / 10" 8472396798990746]
  by (simp add: Number_divide_def)

lemma eval_divide_903000_301: "Number_divide (Finite 903000) (Finite 301) = Finite 3000"
  using roundToDouble_eqI [of "11" "903000 / 301" 6597069766656000]
  by (simp add: Number_divide_def)

lemma eval_add_0_3000: "Number_add (Finite 0) (Finite 3000) = Finite 3000"
  using roundToDouble_eqI [of "11" "0 + 3000" 6597069766656000]
  by (simp add: Number_add_def)

lemma eval_add_3000_3000: "Number_add (Finite 3000) (Finite 3000) = Finite 6000"
  using roundToDouble_eqI [of "12" "3000 + 3000" 6597069766656000]
  by (simp add: Number_add_def)

lemma eval_divide_6000_2: "Number_divide (Finite 6000) (Finite 2) = Finite 3000"
  using roundToDouble_eqI [of "11" "6000 / 2" 6597069766656000]
  by (simp add: Number_divide_def)

lemma eval_multiply_3000_0_8: "Number_multiply (Finite 3000) (Finite (3602879701896397 / 4503599627370496)) = Finite 2400"
  using roundToDouble_eqI [of "11" "3000 * (3602879701896397 / 4503599627370496)" 5277655813324800]
  by (simp add: Number_multiply_def)

lemma eval_divide_100_10: "Number_divide (Finite 100) (Finite 10) = Finite 10"
  using roundToDouble_eqI [of "3" "100 / 10" 5629499534213120]
  by (simp add: Number_divide_def)

lemma eval_divide_136000_100: "Number_divide (Finite 136000) (Finite 100) = Finite 1360"
  using roundToDouble_eqI [of "10" "136000 / 100" 5981343255101440]
  by (simp add: Number_divide_def)

lemma eval_divide_64000_100: "Number_divide (Finite 64000) (Finite 100) = Finite 640"
  using roundToDouble_eqI [of "9" "64000 / 100" 5629499534213120]
  by (simp add: Number_divide_def)

lemma eval_divide_40000_100: "Number_divide (Finite 40000) (Finite 100) = Finite 400"
  using roundToDouble_eqI [of "8" "40000 / 100" 7036874417766400]
  by (simp add: Number_divide_def)

lemma eval_add_0_1360: "Number_add (Finite 0) (Finite 1360) = Finite 1360"
  using roundToDouble_eqI [of "10" "0 + 1360" 5981343255101440]
  by (simp add: Number_add_def)

lemma eval_add_1360_640: "Number_add (Finite 1360) (Finite 640) = Finite 2000"
  using roundToDouble_eqI [of "10" "1360 + 640" 8796093022208000]
  by (simp add: Number_add_def)

lemma eval_add_2000_400: "Number_add (Finite 2000) (Finite 400) = Finite 2400"
  using roundToDouble_eqI [of "11" "2000 + 400" 5277655813324800]
  by (simp add: Number_add_def)

lemma eval_divide_2400_3: "Number_divide (Finite 2400) (Finite 3) = Finite 800"
  using roundToDouble_eqI [of "9" "2400 / 3" 7036874417766400]
  by (simp add: Number_divide_def)

lemma eval_multiply_800_0_8: "Number_multiply (Finite 800) (Finite (3602879701896397 / 4503599627370496)) = Finite 640"
  using roundToDouble_eqI [of "9" "800 * (3602879701896397 / 4503599627370496)" 5629499534213120]
  by (simp add: Number_multiply_def)

lemma eval_divide_100_2: "Number_divide (Finite 100) (Finite 2) = Finite 50"
  using roundToDouble_eqI [of "5" "100 / 2" 7036874417766400]
  by (simp add: Number_divide_def)

lemma eval_divide_100_100: "Number_divide (Finite 100) (Finite 100) = Finite 1"
  using roundToDouble_eqI [of "0" "100 / 100" 4503599627370496]
  by (simp add: Number_divide_def)

lemma eval_divide_10_1: "Number_divide (Finite 10) (Finite 1) = Finite 10"
  using roundToDouble_eqI [of "3" "10 / 1" 5629499534213120]
  by (simp add: Number_divide_def)

lemma eval_divide_1000_10: "Number_divide (Finite 1000) (Finite 10) = Finite 100"
  using roundToDouble_eqI [of "6" "1000 / 10" 7036874417766400]
  by (simp add: Number_divide_def)

lemma eval_add_0_1: "Number_add (Finite 0) (Finite 1) = Finite 1"
  using roundToDouble_eqI [of "0" "0 + 1" 4503599627370496]
  by (simp add: Number_add_def)

lemma eval_add_1_100: "Number_add (Finite 1) (Finite 100) = Finite 101"
  using roundToDouble_eqI [of "6" "1 + 100" 7107243161944064]
  by (simp add: Number_add_def)

lemma eval_add_101_1: "Number_add (Finite 101) (Finite 1) = Finite 102"
  using roundToDouble_eqI [of "6" "101 + 1" 7177611906121728]
  by (simp add: Number_add_def)

lemma eval_divide_102_3: "Number_divide (Finite 102) (Finite 3) = Finite 34"
  using roundToDouble_eqI [of "5" "102 / 3" 4785074604081152]
  by (simp add: Number_divide_def)

lemma eval_multiply_34_0_8: "Number_multiply (Finite 34) (Finite (3602879701896397 / 4503599627370496)) = Finite (1914029841632461 / 70368744177664)"
  using roundToDouble_eqI [of "4" "34 * (3602879701896397 / 4503599627370496)" 7656119366529844]
  by (simp add: Number_multiply_def)

lemma eval_divide_1_1: "Number_divide (Finite 1) (Finite 1) = Finite 1"
  using roundToDouble_eqI [of "0" "1 / 1" 4503599627370496]
  by (simp add: Number_divide_def)

lemma eval_divide_1e21_1: "Number_divide (Finite 1000000000000000000000) (Finite 1) = Finite 1000000000000000000000"
  using roundToDouble_eqI [of "69" "1000000000000000000000 / 1" 7629394531250000]
  by (simp add: Number_divide_def)

lemma eval_divide_4e21_1: "Number_divide (Finite 4000000000000000000000) (Finite 1) = Finite 4000000000000000000000"
  using roundToDouble_eqI [of "71" "4000000000000000000000 / 1" 7629394531250000]
  by (simp add: Number_divide_def)

lemma eval_add_0_1e21: "Number_add (Finite 0) (Finite 1000000000000000000000) = Finite 1000000000000000000000"
  using roundToDouble_eqI [of "69" "0 + 1000000000000000000000" 7629394531250000]
  by (simp add: Number_add_def)

lemma eval_add_1e21_4e21: "Number_add (Finite 1000000000000000000000) (Finite 4000000000000000000000) = Finite 5000000000000000000000"
  using roundToDouble_eqI [of "72" "1000000000000000000000 + 4000000000000000000000" 4768371582031250]
  by (simp add: Number_add_def)

lemma eval_divide_5e21_2: "Number_divide (Finite 5000000000000000000000) (Finite 2) = Finite 2500000000000000000000"
  using roundToDouble_eqI [of "71" "5000000000000000000000 / 2" 4768371582031250]
  by (simp add: Number_divide_def)

lemma eval_multiply_25e20_0_8: "Number_multiply (Finite 2500000000000000000000) (Finite (3602879701896397 / 4503599627370496)) = Finite 2000000000000000000000"
  using roundToDouble_eqI [of "70" "2500000000000000000000 * (3602879701896397 / 4503599627370496)" 7629394531250000]
  by (simp add: Number_multiply_def)

lemma eval_round_1e21: "roundToDouble (1000000000000000000000) = Finite 1000000000000000000000"
  using roundToDouble_eqI [of "69" "1000000000000000000000" 7629394531250000]
  by simp

lemma eval_round_2e21: "roundToDouble (2000000000000000000000) = Finite 2000000000000000000000"
  using roundToDouble_eqI [of "70" "2000000000000000000000" 7629394531250000]
  by simp

lemma eval_round_1e22: "roundToDouble (10000000000000000000000) = Finite 10000000000000000000000"
  using roundToDouble_eqI [of "73" "10000000000000000000000" 4768371582031250]
  by simp

lemma eval_divide_1000_5: "Number_divide (Finite 1000) (Finite 5) = Finite 200"
  using roundToDouble_eqI [of "7" "1000 / 5" 7036874417766400]
  by (simp add: Number_divide_def)

lemma eval_add_0_200: "Number_add (Finite 0) (Finite 200) = Finite 200"
  using roundToDouble_eqI [of "7" "0 + 200" 7036874417766400]
  by (simp add: Number_add_def)

lemma eval_divide_200_1: "Number_divide (Finite 200) (Finite 1) = Finite 200"
  using roundToDouble_eqI [of "7" "200 / 1" 7036874417766400]
  by (simp add: Number_divide_def)

lemma eval_multiply_200_0_8: "Number_multiply (Finite 200) (Finite (3602879701896397 / 4503599627370496)) = Finite 160"
  using roundToDouble_eqI [of "7" "200 * (3602879701896397 / 4503599627370496)" 5629499534213120]
  by (simp add: Number_multiply_def)

lemma eval_divide_1e21_1e21: "Number_divide (Finite 1000000000000000000000) (Finite 1000000000000000000000) = Finite 1"
  using roundToDouble_eqI [of "0" "1000000000000000000000 / 1000000000000000000000" 4503599627370496]
  by (simp add: Number_divide_def)

lemma eval_multiply_1_0_8: "Number_multiply (Finite 1) (Finite (3602879701896397 / 4503599627370496)) = Finite (3602879701896397 / 4503599627370496)"
  using roundToDouble_eqI [of "- 1" "1 * (3602879701896397 / 4503599627370496)" 7205759403792794]
  by (simp add: Number_multiply_def)

lemma floor_rat_one_numeral: "\<lfloor>1 / numeral b :: rat\<rfloor> = 1 div numeral b"
  using floor_divide_of_int_eq [of 1 "numeral b", where ?'a = rat] by simp

lemma floorlog_rat_1e21: "floorlog_rat 10 1000000000000000000000 = 21"
  by (rule floorlog_rat_eqI) simp_all

lemma candidates_1e21:
  "candidates 1000000000000000000000 22 1 = [(1, 22)]"
  by (simp add: candidates_def Let_def floor_rat_one_numeral
        eval_round_1e21 eval_round_2e21 eval_round_1e22)

lemma numberToString_1e21: "numberToString (Finite 1000000000000000000000) = ''1e+21''"
proof -
  have "shortest 1000000000000000000000 22 17 1 = (1, 22, 1)"
    using shortest.simps(1) [of 1000000000000000000000 22 16 1]
    by (simp add: candidates_1e21 [unfolded One_nat_def])
  then show ?thesis
    by (simp add: numberToString_def floorlog_rat_1e21 formatDigits_def
          decimal_small decimal_step digit_def)
qed

lemma toFixed_large:
  "10 ^ 21 \<le> \<bar>q\<bar> \<Longrightarrow>
     toFixed f (Finite q) = (if q < 0 then ''-'' else []) @ numberToString (Finite \<bar>q\<bar>)"
  by (simp add: toFixed_def Let_def)

lemma eval_divide_5_0: "Number_divide (Finite 5) (Finite 0) = PosInfinity"
  by (simp add: Number_divide_def infinity_def)

lemma eval_divide_5_1: "Number_divide (Finite 5) (Finite 1) = Finite 5"
  using roundToDouble_eqI [of "2" "5 / 1" 5629499534213120]
  by (simp add: Number_divide_def)

lemma eval_divide_12_5: "Number_divide (Finite 12) (Finite 5) = Finite (5404319552844595 / 2251799813685248)"
  using roundToDouble_eqI [of "1" "12 / 5" 5404319552844595]
  by (simp add: Number_divide_def)

lemma eval_divide_18_5: "Number_divide (Finite 18) (Finite 5) = Finite (8106479329266893 / 2251799813685248)"
  using roundToDouble_eqI [of "1" "18 / 5" 8106479329266893]
  by (simp add: Number_divide_def)

lemma eval_add_0_2_4: "Number_add (Finite 0) (Finite (5404319552844595 / 2251799813685248)) = Finite (5404319552844595 / 2251799813685248)"
  using roundToDouble_eqI [of "1" "0 + (5404319552844595 / 2251799813685248)" 5404319552844595]
  by (simp add: Number_add_def)

lemma eval_add_2_4_3_6: "Number_add (Finite (5404319552844595 / 2251799813685248)) (Finite (8106479329266893 / 2251799813685248)) = Finite 6"
  using roundToDouble_eqI [of "2" "(5404319552844595 / 2251799813685248) + (8106479329266893 / 2251799813685248)" 6755399441055744]
  by (simp add: Number_add_def)

lemma eval_divide_6_2: "Number_divide (Finite 6) (Finite 2) = Finite 3"
  using roundToDouble_eqI [of "1" "6 / 2" 6755399441055744]
  by (simp add: Number_divide_def)

lemma eval_multiply_3_0_8: "Number_multiply (Finite 3) (Finite (3602879701896397 / 4503599627370496)) = Finite (1351079888211149 / 562949953421312)"
  using roundToDouble_tieI [of "1" "3 * (3602879701896397 / 4503599627370496)" 5404319552844595]
  by (simp add: Number_multiply_def)

section \<open>Properties of the derivation\<close>

text \<open>
  C1. The derivation returns a sequence of the same length and order as its input:
  the name, the student count, the faculty count and the budget of every record are
  those of the input record at the same position, and each output record is the input
  record with nothing but the two derived fields set.
\<close>

theorem analyzeDepartmentData_frame:
  "length (analyzeDepartmentData departments) = length departments
   \<and> map Department (analyzeDepartmentData departments) = map Department departments
   \<and> map Students (analyzeDepartmentData departments) = map Students departments
   \<and> map Faculty (analyzeDepartmentData departments) = map Faculty departments
   \<and> map Budget (analyzeDepartmentData departments) = map Budget departments
   \<and> list_all2 (\<lambda>d d'. \<exists>r b. d' = d \<lparr> Student_Faculty_Ratio := Some r,
                                       Budget_per_Student := Some b \<rparr>)
         departments (analyzeDepartmentData departments)"
proof -
  have "list_all2 (\<lambda>d d'. \<exists>r b. d' = d \<lparr> Student_Faculty_Ratio := Some r,
                                         Budget_per_Student := Some b \<rparr>)
          departments (analyzeDepartmentData departments)"
    unfolding analyzeDepartmentData_def list_all2_map2
    by (rule list_all2_refl) blast
  then show ?thesis
    by (simp add: analyzeDepartmentData_def comp_def)
qed

text \<open>
  C10. The derivation is idempotent: the derived fields are computed from the four
  base fields, which the derivation leaves as they are, and replace the derived fields
  already there.
\<close>

theorem analyzeDepartmentData_idempotent:
  "analyzeDepartmentData (analyzeDepartmentData departments) = analyzeDepartmentData departments"
  by (simp add: analyzeDepartmentData_def comp_def)

text \<open>
  C7. A zero denominator does not make the derivation fail or drop the record: the
  record at every position of the output is the input record with its two derived
  fields, a zero faculty count gives a student-faculty ratio that is an infinity or
  \<open>NaN\<close>, a zero student count gives a budget per student that is an infinity or
  \<open>NaN\<close>, and the recommendations are computed from such records without an error.
\<close>

theorem analyzeDepartmentData_zero_denominator:
  "i < length departments \<Longrightarrow>
     analyzeDepartmentData departments ! i =
       (departments ! i)
         \<lparr> Student_Faculty_Ratio :=
             Some (Number_divide (Students (departments ! i)) (Faculty (departments ! i))),
           Budget_per_Student :=
             Some (Number_divide (Budget (departments ! i)) (Students (departments ! i))) \<rparr>
     \<and> (isZero (Faculty (departments ! i)) \<longrightarrow>
          Student_Faculty_Ratio (analyzeDepartmentData departments ! i)
            \<in> {Some NaN, Some PosInfinity, Some NegInfinity})
     \<and> (isZero (Students (departments ! i)) \<longrightarrow>
          Budget_per_Student (analyzeDepartmentData departments ! i)
            \<in> {Some NaN, Some PosInfinity, Some NegInfinity})
     \<and> (\<exists>recommendations.
          generateRecommendations (analyzeDepartmentData departments) = Inr recommendations)"
  by (simp add: analyzeDepartmentData_def Number_divide_zero infinity_def
        generateRecommendations_concat)

text \<open>
  A record with no students and no faculty: the ratio is \<open>0 / 0\<close>, that is \<open>NaN\<close>,
  and the budget per student \<open>1000 / 0\<close>, that is \<open>Infinity\<close>.
\<close>

theorem analyzeDepartmentData_zero_denominator_witness:
  "(0::nat) < length [\<lparr> Department = ''Astronomy'', Students = Finite 0, Faculty = Finite 0,
                        Budget = Finite 1000, Student_Faculty_Ratio = None,
                        Budget_per_Student = None \<rparr>]
   \<and> analyzeDepartmentData
         [\<lparr> Department = ''Astronomy'', Students = Finite 0, Faculty = Finite 0,
            Budget = Finite 1000, Student_Faculty_Ratio = None,
            Budget_per_Student = None \<rparr>]
       = [\<lparr> Department = ''Astronomy'', Students = Finite 0, Faculty = Finite 0,
            Budget = Finite 1000, Student_Faculty_Ratio = Some NaN,
            Budget_per_Student = Some PosInfinity \<rparr>]"
  using analyzeDepartmentData_zero_denominator
          [of 0 "[\<lparr> Department = ''Astronomy'', Students = Finite 0, Faculty = Finite 0,
                     Budget = Finite 1000, Student_Faculty_Ratio = None,
                     Budget_per_Student = None \<rparr>]"]
  by (simp add: analyzeDepartmentData_def Number_divide_def infinity_def)

section \<open>Properties of the recommendations\<close>

text \<open>
  C6. On the empty sequence the recommendations are the empty sequence, and no error
  occurs: \<open>forEach\<close> does not call its callback, whatever that is, so the average is
  not computed; computed on the empty sequence it would be \<open>0 / 0\<close>, that is \<open>NaN\<close>,
  not an error.
\<close>

theorem generateRecommendations_empty:
  "generateRecommendations [] = Inr []
   \<and> (\<forall>f. forEach f ([] :: Department list) ([] :: string list) = Inr [])
   \<and> avgBudgetPerStudent [] = NaN"
  by (simp add: generateRecommendations_def avgBudgetPerStudent_def Number_divide_def)

text \<open>
  C9. Computing the dataset-wide average once per call, before the loop, instead of
  once per record gives the same result on every input: the same error or the same
  recommendations.
\<close>

theorem generateRecommendationsHoisted_eq:
  "generateRecommendationsHoisted departments = generateRecommendations departments"
proof -
  have "callbackHoisted (avgBudgetPerStudent departments) = callback departments"
    by (intro ext) (simp add: callbackHoisted_def callback_def Let_def split: sum.splits)
  then show ?thesis
    by (simp add: generateRecommendationsHoisted_def generateRecommendations_def Let_def)
qed

section \<open>The sample departments and the derived values\<close>

text \<open>
  C2, as the program has it. The derived fields are the quotients \<open>Students / Faculty\<close>
  and \<open>Budget / Students\<close> of the record as binary64 division computes them, which
  are not always the exact quotients. The result is the exact quotient when that is a
  normal binary64 number, \<open>m * 2^k\<close> with a significand \<open>m\<close> of 53 bits; and for
  every exact quotient in the range of the normal numbers it is a finite number within
  a relative error of \<open>2^-53\<close> of the exact quotient. The record of Computer Science
  (450 students, 12 faculty, budget 2000000) gets the ratio 37.5, which is the exact
  quotient, and the budget per student \<open>4886718345671111 / 2^40\<close>, the binary64 number
  4444.444444444444 between 4444.44 and 4444.45. Loading the sample data sets the
  dataset to the derivation of the eight sample records, which has the derived values
  listed.
\<close>

theorem analyzeDepartmentData_quotients:
  "map Student_Faculty_Ratio (analyzeDepartmentData departments) =
     map (\<lambda>d. Some (Number_divide (Students d) (Faculty d))) departments
   \<and> map Budget_per_Student (analyzeDepartmentData departments) =
       map (\<lambda>d. Some (Number_divide (Budget d) (Students d))) departments
   \<and> (\<forall>x y. 2 powi (- 1022) \<le> \<bar>x / y\<bar> \<and> \<bar>x / y\<bar> \<le> (2 ^ 53 - 1) * 2 ^ 971 \<longrightarrow>
          (\<exists>r. Number_divide (Finite x) (Finite y) = Finite r
               \<and> \<bar>r - x / y\<bar> \<le> \<bar>x / y\<bar> / 2 ^ 53))
   \<and> (\<forall>x y m k. x / y = of_int m * 2 powi k \<and> 2 ^ 52 \<le> \<bar>m\<bar> \<and> \<bar>m\<bar> < 2 ^ 53
            \<and> - 1074 \<le> k \<and> k \<le> 970 \<longrightarrow>
          Number_divide (Finite x) (Finite y) = Finite (x / y))
   \<and> analyzeDepartmentData [department ''Computer Science'' 450 12 2000000] =
       [(department ''Computer Science'' 450 12 2000000)
          \<lparr> Student_Faculty_Ratio := Some (Finite 37.5),
            Budget_per_Student := Some (Finite (4886718345671111 / 2 ^ 40)) \<rparr>]
   \<and> (4444.44 :: rat) < 4886718345671111 / 2 ^ 40
   \<and> (4886718345671111 / 2 ^ 40 :: rat) < 4444.45
   \<and> data (loadSampleData st) = analyzeDepartmentData sampleData
   \<and> analyzeDepartmentData sampleData =
       [(department ''Computer Science'' 450 12 2000000)
          \<lparr> Student_Faculty_Ratio := Some (Finite 37.5),
            Budget_per_Student := Some (Finite (4886718345671111 / 2 ^ 40)) \<rparr>,
        (department ''Mathematics'' 300 10 1500000)
          \<lparr> Student_Faculty_Ratio := Some (Finite 30),
            Budget_per_Student := Some (Finite 5000) \<rparr>,
        (department ''Physics'' 200 8 1800000)
          \<lparr> Student_Faculty_Ratio := Some (Finite 25),
            Budget_per_Student := Some (Finite 9000) \<rparr>,
        (department ''Chemistry'' 250 9 1700000)
          \<lparr> Student_Faculty_Ratio := Some (Finite (3909374676536889 / 2 ^ 47)),
            Budget_per_Student := Some (Finite 6800) \<rparr>,
        (department ''Biology'' 350 11 1900000)
          \<lparr> Student_Faculty_Ratio := Some (Finite (8956021986248145 / 2 ^ 48)),
            Budget_per_Student := Some (Finite (5968777407926857 / 2 ^ 40)) \<rparr>,
        (department ''Engineering'' 500 15 2500000)
          \<lparr> Student_Faculty_Ratio := Some (Finite (4691249611844267 / 2 ^ 47)),
            Budget_per_Student := Some (Finite 5000) \<rparr>,
        (department ''Psychology'' 400 10 1600000)
          \<lparr> Student_Faculty_Ratio := Some (Finite 40),
            Budget_per_Student := Some (Finite 4000) \<rparr>,
        (department ''Economics'' 350 9 1400000)
          \<lparr> Student_Faculty_Ratio := Some (Finite (1368281136787911 / 2 ^ 45)),
            Budget_per_Student := Some (Finite 4000) \<rparr>]"
proof -
  have quot: "\<forall>x y. 2 powi (- 1022) \<le> \<bar>x / y\<bar> \<and> \<bar>x / y\<bar> \<le> (2 ^ 53 - 1) * 2 ^ 971 \<longrightarrow>
          (\<exists>r. Number_divide (Finite x) (Finite y) = Finite r
               \<and> \<bar>r - x / y\<bar> \<le> \<bar>x / y\<bar> / 2 ^ 53)"
  proof (intro allI impI)
    fix x y :: rat
    assume h: "2 powi (- 1022) \<le> \<bar>x / y\<bar> \<and> \<bar>x / y\<bar> \<le> (2 ^ 53 - 1) * 2 ^ 971"
    have "0 < (2::rat) powi (- 1022)" by (rule zero_less_power_int) simp
    then have "0 < \<bar>x / y\<bar>" using h by linarith
    then have "x \<noteq> 0" "y \<noteq> 0" by auto
    then have "Number_divide (Finite x) (Finite y) = roundToDouble (x / y)"
      by (simp add: Number_divide_def)
    then show "\<exists>r. Number_divide (Finite x) (Finite y) = Finite r
                 \<and> \<bar>r - x / y\<bar> \<le> \<bar>x / y\<bar> / 2 ^ 53"
      using roundToDouble_error [of "x / y"] h by simp
  qed
  have exact: "\<forall>x y m k. x / y = of_int m * 2 powi k \<and> 2 ^ 52 \<le> \<bar>m\<bar> \<and> \<bar>m\<bar> < 2 ^ 53
            \<and> - 1074 \<le> k \<and> k \<le> 970 \<longrightarrow>
          Number_divide (Finite x) (Finite y) = Finite (x / y)"
  proof (intro allI impI)
    fix x y :: rat and m k :: int
    assume h: "x / y = of_int m * 2 powi k \<and> 2 ^ 52 \<le> \<bar>m\<bar> \<and> \<bar>m\<bar> < 2 ^ 53
                 \<and> - 1074 \<le> k \<and> k \<le> 970"
    have "0 < (2::rat) powi k" by (rule zero_less_power_int) simp
    moreover have "m \<noteq> 0" using h by auto
    ultimately have "x / y \<noteq> 0" using h by simp
    then have "x \<noteq> 0" "y \<noteq> 0" by auto
    then have "Number_divide (Finite x) (Finite y) = roundToDouble (x / y)"
      by (simp add: Number_divide_def)
    moreover have "roundToDouble (of_int m * 2 powi k) = Finite (of_int m * 2 powi k)"
      using h by (intro roundToDouble_exact) simp_all
    ultimately show "Number_divide (Finite x) (Finite y) = Finite (x / y)"
      using h by simp
  qed
  have cs: "analyzeDepartmentData [department ''Computer Science'' 450 12 2000000] =
       [(department ''Computer Science'' 450 12 2000000)
          \<lparr> Student_Faculty_Ratio := Some (Finite 37.5),
            Budget_per_Student := Some (Finite (4886718345671111 / 2 ^ 40)) \<rparr>]"
    by (simp add: analyzeDepartmentData_def department_def
          eval_divide_450_12 eval_divide_2000000_450)
  have load: "data (loadSampleData st) = analyzeDepartmentData sampleData"
    by (simp add: loadSampleData_def)
  have sample: "analyzeDepartmentData sampleData =
       [(department ''Computer Science'' 450 12 2000000)
          \<lparr> Student_Faculty_Ratio := Some (Finite 37.5),
            Budget_per_Student := Some (Finite (4886718345671111 / 2 ^ 40)) \<rparr>,
        (department ''Mathematics'' 300 10 1500000)
          \<lparr> Student_Faculty_Ratio := Some (Finite 30),
            Budget_per_Student := Some (Finite 5000) \<rparr>,
        (department ''Physics'' 200 8 1800000)
          \<lparr> Student_Faculty_Ratio := Some (Finite 25),
            Budget_per_Student := Some (Finite 9000) \<rparr>,
        (department ''Chemistry'' 250 9 1700000)
          \<lparr> Student_Faculty_Ratio := Some (Finite (3909374676536889 / 2 ^ 47)),
            Budget_per_Student := Some (Finite 6800) \<rparr>,
        (department ''Biology'' 350 11 1900000)
          \<lparr> Student_Faculty_Ratio := Some (Finite (8956021986248145 / 2 ^ 48)),
            Budget_per_Student := Some (Finite (5968777407926857 / 2 ^ 40)) \<rparr>,
        (department ''Engineering'' 500 15 2500000)
          \<lparr> Student_Faculty_Ratio := Some (Finite (4691249611844267 / 2 ^ 47)),
            Budget_per_Student := Some (Finite 5000) \<rparr>,
        (department ''Psychology'' 400 10 1600000)
          \<lparr> Student_Faculty_Ratio := Some (Finite 40),
            Budget_per_Student := Some (Finite 4000) \<rparr>,
        (department ''Economics'' 350 9 1400000)
          \<lparr> Student_Faculty_Ratio := Some (Finite (1368281136787911 / 2 ^ 45)),
            Budget_per_Student := Some (Finite 4000) \<rparr>]"
    by (simp add: sampleData_def analyzeDepartmentData_def department_def
          eval_divide_450_12 eval_divide_2000000_450 eval_divide_300_10
          eval_divide_1500000_300 eval_divide_200_8 eval_divide_1800000_200
          eval_divide_250_9 eval_divide_1700000_250 eval_divide_350_11
          eval_divide_1900000_350 eval_divide_500_15 eval_divide_2500000_500
          eval_divide_400_10 eval_divide_1600000_400 eval_divide_350_9
          eval_divide_1400000_350)
  have maps: "map Student_Faculty_Ratio (analyzeDepartmentData departments) =
     map (\<lambda>d. Some (Number_divide (Students d) (Faculty d))) departments"
    "map Budget_per_Student (analyzeDepartmentData departments) =
       map (\<lambda>d. Some (Number_divide (Budget d) (Students d))) departments"
    by (simp_all add: analyzeDepartmentData_def comp_def)
  have bounds: "(4444.44 :: rat) < 4886718345671111 / 2 ^ 40"
    "(4886718345671111 / 2 ^ 40 :: rat) < 4444.45"
    by simp_all
  show ?thesis
    using maps quot exact cs bounds load sample by (intro conjI)
qed

text \<open>
  The budget per student of Computer Science lies in the range of the normal numbers,
  so it is within the relative error \<open>2^-53\<close> of \<open>2000000 / 450\<close>; its ratio
  \<open>450 / 12\<close> is \<open>5277655813324800 * 2^-47\<close>, a normal binary64 number, so it is
  exact.
\<close>

theorem analyzeDepartmentData_quotients_witness:
  "2 powi (- 1022) \<le> \<bar>2000000 / 450 :: rat\<bar>
   \<and> \<bar>2000000 / 450 :: rat\<bar> \<le> (2 ^ 53 - 1) * 2 ^ 971
   \<and> (\<exists>r. Number_divide (Finite 2000000) (Finite 450) = Finite r
          \<and> \<bar>r - 2000000 / 450\<bar> \<le> \<bar>2000000 / 450\<bar> / 2 ^ 53)
   \<and> (450 / 12 :: rat) = of_int 5277655813324800 * 2 powi (- 47)
   \<and> (2 ^ 52 :: int) \<le> \<bar>5277655813324800\<bar>
   \<and> \<bar>5277655813324800 :: int\<bar> < 2 ^ 53
   \<and> Number_divide (Finite 450) (Finite 12) = Finite (450 / 12)"
proof -
  have h: "2 powi (- 1022) \<le> \<bar>2000000 / 450 :: rat\<bar>
           \<and> \<bar>2000000 / 450 :: rat\<bar> \<le> (2 ^ 53 - 1) * 2 ^ 971"
    by simp
  have "\<forall>x y. 2 powi (- 1022) \<le> \<bar>x / y\<bar> \<and> \<bar>x / y\<bar> \<le> (2 ^ 53 - 1) * 2 ^ 971 \<longrightarrow>
          (\<exists>r. Number_divide (Finite x) (Finite y) = Finite r
               \<and> \<bar>r - x / y\<bar> \<le> \<bar>x / y\<bar> / 2 ^ 53)"
    using analyzeDepartmentData_quotients
            [of "[]" "\<lparr> data = [], aiInsight = JString [], loading = False \<rparr>"]
    by (elim conjE)
  then have 1: "\<exists>r. Number_divide (Finite 2000000) (Finite 450) = Finite r
          \<and> \<bar>r - 2000000 / 450\<bar> \<le> \<bar>2000000 / 450\<bar> / 2 ^ 53"
    using h by blast
  have g: "(450 / 12 :: rat) = of_int 5277655813324800 * 2 powi (- 47)
           \<and> (2 ^ 52 :: int) \<le> \<bar>5277655813324800\<bar>
           \<and> \<bar>5277655813324800 :: int\<bar> < 2 ^ 53
           \<and> (- 1074 :: int) \<le> - 47 \<and> (- 47 :: int) \<le> 970"
    by simp
  have "\<forall>x y m k. x / y = of_int m * 2 powi k \<and> 2 ^ 52 \<le> \<bar>m\<bar> \<and> \<bar>m\<bar> < 2 ^ 53
            \<and> - 1074 \<le> k \<and> k \<le> 970 \<longrightarrow>
          Number_divide (Finite x) (Finite y) = Finite (x / y)"
    using analyzeDepartmentData_quotients
            [of "[]" "\<lparr> data = [], aiInsight = JString [], loading = False \<rparr>"]
    by (elim conjE)
  then have 2: "Number_divide (Finite 450) (Finite 12) = Finite (450 / 12)"
    using g by blast
  show ?thesis using h 1 g 2 by (intro conjI) (elim conjE, assumption)+
qed

text \<open>
  C2 as stated fails: the derived fields are not always the exact quotients. The exact
  budget per student of Computer Science is \<open>2000000 / 450 = 40000 / 9\<close>; the
  derived field is \<open>4886718345671111 / 2^40\<close>, another number.
\<close>

theorem analyzeDepartmentData_quotients_counterexample:
  "map Budget_per_Student
       (analyzeDepartmentData [department ''Computer Science'' 450 12 2000000]) =
     [Some (Finite (4886718345671111 / 2 ^ 40))]
   \<and> Number_divide (Finite 2000000) (Finite 450) \<noteq> Finite (2000000 / 450)
   \<and> map Budget_per_Student
         (analyzeDepartmentData [department ''Computer Science'' 450 12 2000000]) \<noteq>
       [Some (Finite (2000000 / 450))]"
  by (simp add: analyzeDepartmentData_def department_def eval_divide_2000000_450)

section \<open>The two rules\<close>

text \<open>
  C3, as the program has it. The recommendations are, for each record in turn, the
  high-ratio warning when the ratio of the record is strictly greater than 30, and no
  high-ratio warning otherwise, followed by what the low-budget rule gives. A derived
  record with ratio exactly 30 gets no warning and one with ratio 30.1 gets one. The
  warning names the department and shows \<open>toFixed 1\<close> of the ratio: for a finite ratio
  below \<open>10^21\<close> that is the decimal numeral with one fraction digit nearest to the
  ratio (the upper one of two equally near); a finite ratio from \<open>10^21\<close> on is shown
  as \<open>numberToString\<close> shows it, in exponent notation: a digit, a point and more
  digits if there are more, \<open>e+\<close> and an exponent of 21 or more; and an infinite
  ratio, which a zero faculty count gives, is shown as \<open>Infinity\<close>.
\<close>

theorem highRatio_warning:
  "generateRecommendations departments =
     Inr (concat (map (\<lambda>dept.
        (if Number_lessThan (Finite 30) (ToNumber (Student_Faculty_Ratio dept))
         then [highRatioMessage (Department dept)
                 (toFixed 1 (ToNumber (Student_Faculty_Ratio dept)))]
         else [])
        @ (if Number_lessThan (ToNumber (Budget_per_Student dept))
                (Number_multiply (avgBudgetPerStudent departments) (roundToDouble (8 / 10)))
           then [lowBudgetMessage (Department dept)
                   (toFixed 2 (ToNumber (Budget_per_Student dept)))]
           else [])) departments))
   \<and> generateRecommendations
         (analyzeDepartmentData
            [department ''Arts'' 30 1 90000, department ''Law'' 301 10 903000]) =
       Inr [highRatioMessage ''Law'' ''30.1'']
   \<and> (\<forall>q. \<bar>q\<bar> < 10 ^ 21 \<longrightarrow>
          (let n = nat \<lfloor>\<bar>q\<bar> * 10 + 1 / 2\<rfloor>
           in toFixed 1 (Finite q) =
                (if q < 0 then ''-'' else []) @ decimal (n div 10) @ ''.'' @ [digit (n mod 10)]
              \<and> \<bar>of_nat n / 10 - \<bar>q\<bar>\<bar> \<le> 1 / 20))
   \<and> (\<forall>q. 10 ^ 21 \<le> \<bar>q\<bar> \<longrightarrow>
          toFixed 1 (Finite q) =
            (if q < 0 then ''-'' else []) @ numberToString (Finite \<bar>q\<bar>))
   \<and> (\<forall>q. 10 ^ 21 \<le> \<bar>q\<bar> \<longrightarrow>
          (\<exists>s n (k::nat). 10 ^ (k - 1) \<le> s \<and> s < 10 ^ k \<and> 22 \<le> n
             \<and> toFixed 1 (Finite q) =
                 (if q < 0 then ''-'' else [])
                 @ (if k = 1 then decimal (nat s)
                    else take 1 (decimal (nat s)) @ ''.'' @ drop 1 (decimal (nat s)))
                 @ ''e+'' @ decimal (nat (n - 1))))
   \<and> toFixed 1 PosInfinity = ''Infinity''"
proof -
  have expo: "\<forall>q. 10 ^ 21 \<le> \<bar>q\<bar> \<longrightarrow>
          (\<exists>s n (k::nat). 10 ^ (k - 1) \<le> s \<and> s < 10 ^ k \<and> 22 \<le> n
             \<and> toFixed 1 (Finite q) =
                 (if q < 0 then ''-'' else [])
                 @ (if k = 1 then decimal (nat s)
                    else take 1 (decimal (nat s)) @ ''.'' @ drop 1 (decimal (nat s)))
                 @ ''e+'' @ decimal (nat (n - 1)))"
    by (intro allI impI) (rule toFixed_exponent)
  have large: "\<forall>q. 10 ^ 21 \<le> \<bar>q\<bar> \<longrightarrow>
          toFixed 1 (Finite q) =
            (if q < 0 then ''-'' else []) @ numberToString (Finite \<bar>q\<bar>)"
    by (simp add: toFixed_large)
  have ex: "generateRecommendations
         (analyzeDepartmentData
            [department ''Arts'' 30 1 90000, department ''Law'' 301 10 903000]) =
       Inr [highRatioMessage ''Law'' ''30.1'']"
    by (simp add: generateRecommendations_concat analyzeDepartmentData_def department_def
          avgBudgetPerStudent_def eval_divide_30_1 eval_divide_90000_30 eval_divide_301_10
          eval_divide_903000_301 eval_add_0_3000 eval_add_3000_3000 eval_divide_6000_2
          roundToDouble_0_8 eval_multiply_3000_0_8 Number_lessThan_def
          toFixed_1_Finite [unfolded One_nat_def] Let_def floor_rat_numeral
          decimal_small decimal_step digit_def)
  have fixed: "\<forall>q. \<bar>q\<bar> < 10 ^ 21 \<longrightarrow>
          (let n = nat \<lfloor>\<bar>q\<bar> * 10 + 1 / 2\<rfloor>
           in toFixed 1 (Finite q) =
                (if q < 0 then ''-'' else []) @ decimal (n div 10) @ ''.'' @ [digit (n mod 10)]
              \<and> \<bar>of_nat n / 10 - \<bar>q\<bar>\<bar> \<le> 1 / 20)"
  proof (intro allI impI)
    fix q :: rat
    assume q: "\<bar>q\<bar> < 10 ^ 21"
    have "\<bar>rat_of_nat (nat \<lfloor>\<bar>q\<bar> * 10 + 1 / 2\<rfloor>) - \<bar>q\<bar> * 10\<bar> \<le> 1 / 2"
      by (rule round_half_up_near) simp
    then have "\<bar>rat_of_nat (nat \<lfloor>\<bar>q\<bar> * 10 + 1 / 2\<rfloor>) / 10 - \<bar>q\<bar>\<bar> \<le> 1 / 20"
      by (simp add: abs_if split: if_splits)
    then show "let n = nat \<lfloor>\<bar>q\<bar> * 10 + 1 / 2\<rfloor>
           in toFixed 1 (Finite q) =
                (if q < 0 then ''-'' else []) @ decimal (n div 10) @ ''.'' @ [digit (n mod 10)]
              \<and> \<bar>of_nat n / 10 - \<bar>q\<bar>\<bar> \<le> 1 / 20"
      using toFixed_1_Finite [OF q] by (simp add: Let_def)
  qed
  have inf: "toFixed 1 PosInfinity = ''Infinity''"
    by (simp add: toFixed_def)
  show ?thesis
    using generateRecommendations_concat [of departments] ex fixed large expo inf
    by (intro conjI)
qed

text \<open>
  The ratio of 301 students and 10 faculty is the binary64 number nearest to 30.1,
  shown as \<open>30.1\<close>; a ratio of \<open>10^21\<close> is shown as \<open>1e+21\<close>, which is in
  exponent notation.
\<close>

theorem highRatio_warning_witness:
  "\<bar>4236198399495373 / 2 ^ 47 :: rat\<bar> < 10 ^ 21
   \<and> Number_divide (Finite 301) (Finite 10) = Finite (4236198399495373 / 2 ^ 47)
   \<and> toFixed 1 (Finite (4236198399495373 / 2 ^ 47)) = ''30.1''
   \<and> \<bar>301 / 10 - 4236198399495373 / 2 ^ 47 :: rat\<bar> \<le> 1 / 20
   \<and> (10 ^ 21 :: rat) \<le> \<bar>10 ^ 21\<bar>
   \<and> toFixed 1 (Finite (10 ^ 21)) = ''1e+21''
   \<and> (\<exists>s n (k::nat). 10 ^ (k - 1) \<le> s \<and> s < 10 ^ k \<and> 22 \<le> n
          \<and> ''1e+21'' =
              (if k = 1 then decimal (nat s)
               else take 1 (decimal (nat s)) @ ''.'' @ drop 1 (decimal (nat s)))
              @ ''e+'' @ decimal (nat (n - 1)))"
proof -
  have expo: "\<forall>q. 10 ^ 21 \<le> \<bar>q\<bar> \<longrightarrow>
          (\<exists>s n (k::nat). 10 ^ (k - 1) \<le> s \<and> s < 10 ^ k \<and> 22 \<le> n
             \<and> toFixed 1 (Finite q) =
                 (if q < 0 then ''-'' else [])
                 @ (if k = 1 then decimal (nat s)
                    else take 1 (decimal (nat s)) @ ''.'' @ drop 1 (decimal (nat s)))
                 @ ''e+'' @ decimal (nat (n - 1)))"
    using highRatio_warning [of "[]"] by (elim conjE)
  have e: "\<exists>s n (k::nat). 10 ^ (k - 1) \<le> s \<and> s < 10 ^ k \<and> 22 \<le> n
          \<and> toFixed 1 (Finite (10 ^ 21)) =
              (if (10 ^ 21 :: rat) < 0 then ''-'' else [])
              @ (if k = 1 then decimal (nat s)
                 else take 1 (decimal (nat s)) @ ''.'' @ drop 1 (decimal (nat s)))
              @ ''e+'' @ decimal (nat (n - 1))"
    using expo by (elim allE [of _ "10 ^ 21"] impE) simp_all
  have all: "\<forall>q. \<bar>q\<bar> < 10 ^ 21 \<longrightarrow>
          (let n = nat \<lfloor>\<bar>q\<bar> * 10 + 1 / 2\<rfloor>
           in toFixed 1 (Finite q) =
                (if q < 0 then ''-'' else []) @ decimal (n div 10) @ ''.'' @ [digit (n mod 10)]
              \<and> \<bar>of_nat n / 10 - \<bar>q\<bar>\<bar> \<le> 1 / 20)"
    using highRatio_warning [of "[]"] by (elim conjE)
  have large: "\<forall>q. 10 ^ 21 \<le> \<bar>q\<bar> \<longrightarrow>
          toFixed 1 (Finite q) =
            (if q < 0 then ''-'' else []) @ numberToString (Finite \<bar>q\<bar>)"
    using highRatio_warning [of "[]"] by (elim conjE)
  from all have "let n = nat \<lfloor>\<bar>4236198399495373 / 2 ^ 47 :: rat\<bar> * 10 + 1 / 2\<rfloor>
           in toFixed 1 (Finite (4236198399495373 / 2 ^ 47)) =
                (if (4236198399495373 / 2 ^ 47 :: rat) < 0 then ''-'' else [])
                @ decimal (n div 10) @ ''.'' @ [digit (n mod 10)]
              \<and> \<bar>of_nat n / 10 - \<bar>4236198399495373 / 2 ^ 47 :: rat\<bar>\<bar> \<le> 1 / 20"
    by (elim allE [of _ "4236198399495373 / 2 ^ 47"] impE) simp_all
  moreover have "toFixed 1 (Finite (10 ^ 21)) =
      (if (10 ^ 21 :: rat) < 0 then ''-'' else []) @ numberToString (Finite \<bar>10 ^ 21\<bar>)"
    using large by (elim allE [of _ "10 ^ 21"] impE) simp_all
  ultimately have fx: "\<bar>4236198399495373 / 2 ^ 47 :: rat\<bar> < 10 ^ 21
   \<and> Number_divide (Finite 301) (Finite 10) = Finite (4236198399495373 / 2 ^ 47)
   \<and> toFixed 1 (Finite (4236198399495373 / 2 ^ 47)) = ''30.1''
   \<and> \<bar>301 / 10 - 4236198399495373 / 2 ^ 47 :: rat\<bar> \<le> 1 / 20
   \<and> (10 ^ 21 :: rat) \<le> \<bar>10 ^ 21\<bar>
   \<and> toFixed 1 (Finite (10 ^ 21)) = ''1e+21''"
    by (simp add: Let_def floor_rat_numeral decimal_small decimal_step digit_def
          eval_divide_301_10 numberToString_1e21)
  then have "toFixed 1 (Finite (10 ^ 21)) = ''1e+21''" by (elim conjE)
  then have "\<exists>s n (k::nat). 10 ^ (k - 1) \<le> s \<and> s < 10 ^ k \<and> 22 \<le> n
          \<and> ''1e+21'' =
              (if k = 1 then decimal (nat s)
               else take 1 (decimal (nat s)) @ ''.'' @ drop 1 (decimal (nat s)))
              @ ''e+'' @ decimal (nat (n - 1))"
    using e by simp
  then show ?thesis using fx by (intro conjI) (elim conjE, assumption)+
qed

text \<open>
  C3 as stated fails for a record with no faculty: of 5 students and 0 faculty the
  ratio is infinite, the warning is given, and what it shows is \<open>Infinity\<close>, which has
  no point before a last digit. It also fails for a ratio of \<open>10^21\<close>, of \<open>10^21\<close>
  students and 1 faculty: what the warning shows is \<open>1e+21\<close>.
\<close>

theorem highRatio_warning_counterexample:
  "generateRecommendations (analyzeDepartmentData [department ''Astronomy'' 5 0 1000]) =
     Inr [highRatioMessage ''Astronomy'' ''Infinity'']
   \<and> \<not> (\<exists>s c. ''Infinity'' = s @ ''.'' @ [c])
   \<and> generateRecommendations
         (analyzeDepartmentData [department ''Library'' (10 ^ 21) 1 (10 ^ 21)]) =
       Inr [highRatioMessage ''Library'' ''1e+21'']
   \<and> \<not> (\<exists>s c. ''1e+21'' = s @ ''.'' @ [c])"
proof -
  have ex: "generateRecommendations (analyzeDepartmentData [department ''Astronomy'' 5 0 1000]) =
     Inr [highRatioMessage ''Astronomy'' ''Infinity'']"
    by (simp add: generateRecommendations_concat analyzeDepartmentData_def department_def
          avgBudgetPerStudent_def eval_divide_1000_5 eval_add_0_200 eval_divide_200_1
          roundToDouble_0_8 eval_multiply_200_0_8 Number_lessThan_def
          eval_divide_5_0 toFixed_def)
  have no: "\<not> (\<exists>s c. ''Infinity'' = s @ ''.'' @ [c])"
  proof
    assume "\<exists>s c. ''Infinity'' = s @ ''.'' @ [c]"
    then obtain s c where "''Infinity'' = s @ ''.'' @ [c]" by blast
    then have "rev ''Infinity'' = rev (s @ ''.'' @ [c])" by (rule arg_cong)
    then show False by simp
  qed
  have ex': "generateRecommendations
         (analyzeDepartmentData [department ''Library'' (10 ^ 21) 1 (10 ^ 21)]) =
       Inr [highRatioMessage ''Library'' ''1e+21'']"
    by (simp add: generateRecommendations_concat analyzeDepartmentData_def department_def
          avgBudgetPerStudent_def eval_divide_1e21_1 eval_divide_1e21_1e21 eval_add_0_1
          eval_divide_1_1 roundToDouble_0_8 eval_multiply_1_0_8 Number_lessThan_def
          toFixed_large numberToString_1e21)
  have no': "\<not> (\<exists>s c. ''1e+21'' = s @ ''.'' @ [c])"
  proof
    assume "\<exists>s c. ''1e+21'' = s @ ''.'' @ [c]"
    then obtain s c where "''1e+21'' = s @ ''.'' @ [c]" by blast
    then have "rev ''1e+21'' = rev (s @ ''.'' @ [c])" by (rule arg_cong)
    then show False by simp
  qed
  show ?thesis using ex no ex' no' by (intro conjI)
qed

text \<open>
  C4, as the program has it. The recommendations are, for each record in turn, what the
  high-ratio rule gives followed by the low-budget warning when the budget per student
  of the record is strictly below the dataset-wide average times 0.8, and by no
  low-budget warning otherwise. The average is the sum of the quotients
  \<open>Budget / Students\<close> of all the records, added from the left starting from 0, divided
  by their number; for derived records these quotients are the budget-per-student
  fields. The factor is the binary64 number nearest to 0.8. Of three derived records
  with 1360, 640 and 400 per student the average is 800 and the threshold 640: only the
  last one gets the warning. The warning names the department and shows \<open>toFixed 2\<close> of
  the budget per student: for a magnitude below \<open>10^21\<close> that is the decimal numeral
  with two fraction digits nearest to it (the upper one of two equally near); from
  \<open>10^21\<close> on it is what \<open>numberToString\<close> shows, in exponent notation: a digit,
  a point and more digits if there are more, \<open>e+\<close> and an exponent of 21 or more.
\<close>

theorem lowBudget_warning:
  "generateRecommendations departments =
     Inr (concat (map (\<lambda>dept.
        (if Number_lessThan (Finite 30) (ToNumber (Student_Faculty_Ratio dept))
         then [highRatioMessage (Department dept)
                 (toFixed 1 (ToNumber (Student_Faculty_Ratio dept)))]
         else [])
        @ (if Number_lessThan (ToNumber (Budget_per_Student dept))
                (Number_multiply (avgBudgetPerStudent departments) (roundToDouble (8 / 10)))
           then [lowBudgetMessage (Department dept)
                   (toFixed 2 (ToNumber (Budget_per_Student dept)))]
           else [])) departments))
   \<and> avgBudgetPerStudent departments =
       Number_divide
         (foldl Number_add (Finite 0)
            (map (\<lambda>d. Number_divide (Budget d) (Students d)) departments))
         (Finite (of_nat (length departments)))
   \<and> map (\<lambda>d. ToNumber (Budget_per_Student d)) (analyzeDepartmentData departments) =
       map (\<lambda>d. Number_divide (Budget d) (Students d)) (analyzeDepartmentData departments)
   \<and> roundToDouble (8 / 10) = Finite (3602879701896397 / 2 ^ 52)
   \<and> \<bar>3602879701896397 / 2 ^ 52 - 8 / 10 :: rat\<bar> \<le> 1 / 2 ^ 54
   \<and> avgBudgetPerStudent
         (analyzeDepartmentData
            [department ''History'' 100 10 136000, department ''Music'' 100 10 64000,
             department ''Drama'' 100 10 40000]) = Finite 800
   \<and> Number_multiply (Finite 800) (roundToDouble (8 / 10)) = Finite 640
   \<and> generateRecommendations
         (analyzeDepartmentData
            [department ''History'' 100 10 136000, department ''Music'' 100 10 64000,
             department ''Drama'' 100 10 40000]) =
       Inr [lowBudgetMessage ''Drama'' ''400.00'']
   \<and> (\<forall>q. \<bar>q\<bar> < 10 ^ 21 \<longrightarrow>
          (let n = nat \<lfloor>\<bar>q\<bar> * 100 + 1 / 2\<rfloor>
           in toFixed 2 (Finite q) =
                (if q < 0 then ''-'' else []) @ decimal (n div 100) @ ''.''
                @ [digit (n div 10 mod 10), digit (n mod 10)]
              \<and> \<bar>of_nat n / 100 - \<bar>q\<bar>\<bar> \<le> 1 / 200))
   \<and> (\<forall>q. 10 ^ 21 \<le> \<bar>q\<bar> \<longrightarrow>
          toFixed 2 (Finite q) =
            (if q < 0 then ''-'' else []) @ numberToString (Finite \<bar>q\<bar>))
   \<and> (\<forall>q. 10 ^ 21 \<le> \<bar>q\<bar> \<longrightarrow>
          (\<exists>s n (k::nat). 10 ^ (k - 1) \<le> s \<and> s < 10 ^ k \<and> 22 \<le> n
             \<and> toFixed 2 (Finite q) =
                 (if q < 0 then ''-'' else [])
                 @ (if k = 1 then decimal (nat s)
                    else take 1 (decimal (nat s)) @ ''.'' @ drop 1 (decimal (nat s)))
                 @ ''e+'' @ decimal (nat (n - 1))))"
proof -
  have expo: "\<forall>q. 10 ^ 21 \<le> \<bar>q\<bar> \<longrightarrow>
          (\<exists>s n (k::nat). 10 ^ (k - 1) \<le> s \<and> s < 10 ^ k \<and> 22 \<le> n
             \<and> toFixed 2 (Finite q) =
                 (if q < 0 then ''-'' else [])
                 @ (if k = 1 then decimal (nat s)
                    else take 1 (decimal (nat s)) @ ''.'' @ drop 1 (decimal (nat s)))
                 @ ''e+'' @ decimal (nat (n - 1)))"
    by (intro allI impI) (rule toFixed_exponent)
  have large: "\<forall>q. 10 ^ 21 \<le> \<bar>q\<bar> \<longrightarrow>
          toFixed 2 (Finite q) =
            (if q < 0 then ''-'' else []) @ numberToString (Finite \<bar>q\<bar>)"
    by (simp add: toFixed_large)
  have avg: "avgBudgetPerStudent departments =
       Number_divide
         (foldl Number_add (Finite 0)
            (map (\<lambda>d. Number_divide (Budget d) (Students d)) departments))
         (Finite (of_nat (length departments)))"
    by (simp add: avgBudgetPerStudent_def foldl_map)
  have fields: "map (\<lambda>d. ToNumber (Budget_per_Student d)) (analyzeDepartmentData departments) =
       map (\<lambda>d. Number_divide (Budget d) (Students d)) (analyzeDepartmentData departments)"
    by (simp add: analyzeDepartmentData_def)
  have lit: "roundToDouble (8 / 10) = Finite (3602879701896397 / 2 ^ 52)"
    by (simp add: roundToDouble_0_8)
  have near: "\<bar>3602879701896397 / 2 ^ 52 - 8 / 10 :: rat\<bar> \<le> 1 / 2 ^ 54"
    by simp
  have avg3: "avgBudgetPerStudent
         (analyzeDepartmentData
            [department ''History'' 100 10 136000, department ''Music'' 100 10 64000,
             department ''Drama'' 100 10 40000]) = Finite 800"
    by (simp add: analyzeDepartmentData_def department_def avgBudgetPerStudent_def
          eval_divide_136000_100 eval_divide_64000_100 eval_divide_40000_100
          eval_add_0_1360 eval_add_1360_640 eval_add_2000_400 eval_divide_2400_3)
  have thr: "Number_multiply (Finite 800) (roundToDouble (8 / 10)) = Finite 640"
    by (simp add: roundToDouble_0_8 eval_multiply_800_0_8)
  have ex: "generateRecommendations
         (analyzeDepartmentData
            [department ''History'' 100 10 136000, department ''Music'' 100 10 64000,
             department ''Drama'' 100 10 40000]) =
       Inr [lowBudgetMessage ''Drama'' ''400.00'']"
    unfolding generateRecommendations_concat avg3 thr
    by (simp add: analyzeDepartmentData_def department_def eval_divide_100_10
          eval_divide_136000_100 eval_divide_64000_100 eval_divide_40000_100
          Number_lessThan_def toFixed_2_Finite Let_def floor_rat_numeral
          decimal_small decimal_step digit_def)
  have fixed: "\<forall>q. \<bar>q\<bar> < 10 ^ 21 \<longrightarrow>
          (let n = nat \<lfloor>\<bar>q\<bar> * 100 + 1 / 2\<rfloor>
           in toFixed 2 (Finite q) =
                (if q < 0 then ''-'' else []) @ decimal (n div 100) @ ''.''
                @ [digit (n div 10 mod 10), digit (n mod 10)]
              \<and> \<bar>of_nat n / 100 - \<bar>q\<bar>\<bar> \<le> 1 / 200)"
  proof (intro allI impI)
    fix q :: rat
    assume q: "\<bar>q\<bar> < 10 ^ 21"
    have "\<bar>rat_of_nat (nat \<lfloor>\<bar>q\<bar> * 100 + 1 / 2\<rfloor>) - \<bar>q\<bar> * 100\<bar> \<le> 1 / 2"
      by (rule round_half_up_near) simp
    then have "\<bar>rat_of_nat (nat \<lfloor>\<bar>q\<bar> * 100 + 1 / 2\<rfloor>) / 100 - \<bar>q\<bar>\<bar> \<le> 1 / 200"
      by (simp add: abs_if split: if_splits)
    then show "let n = nat \<lfloor>\<bar>q\<bar> * 100 + 1 / 2\<rfloor>
           in toFixed 2 (Finite q) =
                (if q < 0 then ''-'' else []) @ decimal (n div 100) @ ''.''
                @ [digit (n div 10 mod 10), digit (n mod 10)]
              \<and> \<bar>of_nat n / 100 - \<bar>q\<bar>\<bar> \<le> 1 / 200"
      using toFixed_2_Finite [OF q] by (simp add: Let_def)
  qed
  show ?thesis
    using generateRecommendations_concat [of departments] avg fields lit near avg3 thr ex fixed
      large expo
    by (intro conjI)
qed

text \<open>
  A budget per student of 400 is shown as \<open>400.00\<close>, that of Biology in the sample
  data, 5428.571428571428, as \<open>5428.57\<close>, and one of \<open>10^21\<close> as \<open>1e+21\<close>,
  which is in exponent notation.
\<close>

theorem lowBudget_warning_witness:
  "\<bar>400 :: rat\<bar> < 10 ^ 21
   \<and> Number_divide (Finite 40000) (Finite 100) = Finite 400
   \<and> toFixed 2 (Finite 400) = ''400.00''
   \<and> \<bar>5968777407926857 / 2 ^ 40 :: rat\<bar> < 10 ^ 21
   \<and> Number_divide (Finite 1900000) (Finite 350) = Finite (5968777407926857 / 2 ^ 40)
   \<and> toFixed 2 (Finite (5968777407926857 / 2 ^ 40)) = ''5428.57''
   \<and> (10 ^ 21 :: rat) \<le> \<bar>10 ^ 21\<bar>
   \<and> toFixed 2 (Finite (10 ^ 21)) = ''1e+21''
   \<and> (\<exists>s n (k::nat). 10 ^ (k - 1) \<le> s \<and> s < 10 ^ k \<and> 22 \<le> n
          \<and> ''1e+21'' =
              (if k = 1 then decimal (nat s)
               else take 1 (decimal (nat s)) @ ''.'' @ drop 1 (decimal (nat s)))
              @ ''e+'' @ decimal (nat (n - 1)))"
proof -
  have expo: "\<forall>q. 10 ^ 21 \<le> \<bar>q\<bar> \<longrightarrow>
          (\<exists>s n (k::nat). 10 ^ (k - 1) \<le> s \<and> s < 10 ^ k \<and> 22 \<le> n
             \<and> toFixed 2 (Finite q) =
                 (if q < 0 then ''-'' else [])
                 @ (if k = 1 then decimal (nat s)
                    else take 1 (decimal (nat s)) @ ''.'' @ drop 1 (decimal (nat s)))
                 @ ''e+'' @ decimal (nat (n - 1)))"
    using lowBudget_warning [of "[]"] by (elim conjE)
  have e: "\<exists>s n (k::nat). 10 ^ (k - 1) \<le> s \<and> s < 10 ^ k \<and> 22 \<le> n
          \<and> toFixed 2 (Finite (10 ^ 21)) =
              (if (10 ^ 21 :: rat) < 0 then ''-'' else [])
              @ (if k = 1 then decimal (nat s)
                 else take 1 (decimal (nat s)) @ ''.'' @ drop 1 (decimal (nat s)))
              @ ''e+'' @ decimal (nat (n - 1))"
    using expo by (elim allE [of _ "10 ^ 21"] impE) simp_all
  have all: "\<forall>q. \<bar>q\<bar> < 10 ^ 21 \<longrightarrow>
          (let n = nat \<lfloor>\<bar>q\<bar> * 100 + 1 / 2\<rfloor>
           in toFixed 2 (Finite q) =
                (if q < 0 then ''-'' else []) @ decimal (n div 100) @ ''.''
                @ [digit (n div 10 mod 10), digit (n mod 10)]
              \<and> \<bar>of_nat n / 100 - \<bar>q\<bar>\<bar> \<le> 1 / 200)"
    using lowBudget_warning [of "[]"] by (elim conjE)
  have large: "\<forall>q. 10 ^ 21 \<le> \<bar>q\<bar> \<longrightarrow>
          toFixed 2 (Finite q) =
            (if q < 0 then ''-'' else []) @ numberToString (Finite \<bar>q\<bar>)"
    using lowBudget_warning [of "[]"] by (elim conjE)
  have a: "let n = nat \<lfloor>\<bar>400 :: rat\<bar> * 100 + 1 / 2\<rfloor>
           in toFixed 2 (Finite 400) =
                (if (400 :: rat) < 0 then ''-'' else []) @ decimal (n div 100) @ ''.''
                @ [digit (n div 10 mod 10), digit (n mod 10)]
              \<and> \<bar>of_nat n / 100 - \<bar>400 :: rat\<bar>\<bar> \<le> 1 / 200"
    using all by (elim allE [of _ "400"] impE) simp_all
  have b: "let n = nat \<lfloor>\<bar>5968777407926857 / 2 ^ 40 :: rat\<bar> * 100 + 1 / 2\<rfloor>
           in toFixed 2 (Finite (5968777407926857 / 2 ^ 40)) =
                (if (5968777407926857 / 2 ^ 40 :: rat) < 0 then ''-'' else [])
                @ decimal (n div 100) @ ''.''
                @ [digit (n div 10 mod 10), digit (n mod 10)]
              \<and> \<bar>of_nat n / 100 - \<bar>5968777407926857 / 2 ^ 40 :: rat\<bar>\<bar> \<le> 1 / 200"
    using all by (elim allE [of _ "5968777407926857 / 2 ^ 40"] impE) simp_all
  have c: "toFixed 2 (Finite (10 ^ 21)) =
      (if (10 ^ 21 :: rat) < 0 then ''-'' else []) @ numberToString (Finite \<bar>10 ^ 21\<bar>)"
    using large by (elim allE [of _ "10 ^ 21"] impE) simp_all
  have fx: "\<bar>400 :: rat\<bar> < 10 ^ 21
   \<and> Number_divide (Finite 40000) (Finite 100) = Finite 400
   \<and> toFixed 2 (Finite 400) = ''400.00''
   \<and> \<bar>5968777407926857 / 2 ^ 40 :: rat\<bar> < 10 ^ 21
   \<and> Number_divide (Finite 1900000) (Finite 350) = Finite (5968777407926857 / 2 ^ 40)
   \<and> toFixed 2 (Finite (5968777407926857 / 2 ^ 40)) = ''5428.57''
   \<and> (10 ^ 21 :: rat) \<le> \<bar>10 ^ 21\<bar>
   \<and> toFixed 2 (Finite (10 ^ 21)) = ''1e+21''"
    using a b c
    by (simp add: Let_def floor_rat_numeral decimal_small decimal_step digit_def
          eval_divide_40000_100 eval_divide_1900000_350 numberToString_1e21)
  then have "toFixed 2 (Finite (10 ^ 21)) = ''1e+21''" by (elim conjE)
  then have "\<exists>s n (k::nat). 10 ^ (k - 1) \<le> s \<and> s < 10 ^ k \<and> 22 \<le> n
          \<and> ''1e+21'' =
              (if k = 1 then decimal (nat s)
               else take 1 (decimal (nat s)) @ ''.'' @ drop 1 (decimal (nat s)))
              @ ''e+'' @ decimal (nat (n - 1))"
    using e by simp
  then show ?thesis using fx by (intro conjI) (elim conjE, assumption)+
qed

text \<open>
  C4 as stated fails in both parts. The threshold: of two records with budgets 12 and
  18 for 5 students each, the exact quotients are \<open>12 / 5\<close> and \<open>18 / 5\<close>, their mean
  is 3, and \<open>12 / 5\<close> is 0.8 times the mean, not strictly below it; the program gives
  the first record the warning, since its budget per student is the binary64 number
  just below \<open>12 / 5\<close> and the product of 3 and the binary64 number nearest to 0.8 is
  rounded to the binary64 number just above \<open>12 / 5\<close>. The format: of two derived
  records with \<open>10^21\<close> and \<open>4 * 10^21\<close> per student the average is \<open>2.5 * 10^21\<close> and
  the threshold \<open>2 * 10^21\<close>, the first record gets the warning, and what it shows is
  \<open>1e+21\<close>, which has no point before two last digits.
\<close>

theorem lowBudget_warning_counterexample:
  "generateRecommendations
     (analyzeDepartmentData [department ''Latin'' 5 1 12, department ''Greek'' 5 1 18]) =
     Inr [lowBudgetMessage ''Latin'' ''2.40'']
   \<and> \<not> ((12 / 5 :: rat) < 8 / 10 * ((12 / 5 + 18 / 5) / 2))
   \<and> generateRecommendations
     (analyzeDepartmentData
        [department ''Mint'' 1 1 (10 ^ 21), department ''Vault'' 1 1 (4 * 10 ^ 21)]) =
     Inr [lowBudgetMessage ''Mint'' ''1e+21'']
   \<and> \<not> (\<exists>s c d. ''1e+21'' = s @ ''.'' @ [c, d])"
proof -
  have thr: "generateRecommendations
     (analyzeDepartmentData [department ''Latin'' 5 1 12, department ''Greek'' 5 1 18]) =
     Inr [lowBudgetMessage ''Latin'' ''2.40'']"
    by (simp add: generateRecommendations_concat analyzeDepartmentData_def department_def
          avgBudgetPerStudent_def eval_divide_5_1 eval_divide_12_5 eval_divide_18_5
          eval_add_0_2_4 eval_add_2_4_3_6 eval_divide_6_2 roundToDouble_0_8
          eval_multiply_3_0_8 Number_lessThan_def toFixed_1_Finite [unfolded One_nat_def]
          toFixed_2_Finite Let_def floor_rat_numeral decimal_small decimal_step digit_def)
  have exact: "\<not> ((12 / 5 :: rat) < 8 / 10 * ((12 / 5 + 18 / 5) / 2))"
    by simp
  have ex: "generateRecommendations
     (analyzeDepartmentData
        [department ''Mint'' 1 1 (10 ^ 21), department ''Vault'' 1 1 (4 * 10 ^ 21)]) =
     Inr [lowBudgetMessage ''Mint'' ''1e+21'']"
    by (simp add: generateRecommendations_concat analyzeDepartmentData_def department_def
          avgBudgetPerStudent_def eval_divide_1_1 eval_divide_1e21_1 eval_divide_4e21_1
          eval_add_0_1e21 eval_add_1e21_4e21 eval_divide_5e21_2 roundToDouble_0_8
          eval_multiply_25e20_0_8 Number_lessThan_def toFixed_large numberToString_1e21)
  have "\<not> (\<exists>s c d. ''1e+21'' = s @ ''.'' @ [c, d])"
  proof
    assume "\<exists>s c d. ''1e+21'' = s @ ''.'' @ [c, d]"
    then obtain s c d where "''1e+21'' = s @ ''.'' @ [c, d]" by blast
    then have "rev ''1e+21'' = rev (s @ ''.'' @ [c, d])" by (rule arg_cong)
    then show False by simp
  qed
  then show ?thesis using thr exact ex by (intro conjI)
qed

text \<open>
  C5. Every call of the callback appends to the recommendations collected so far the
  high-ratio warning of its record, if the rule fires, and then the low-budget warning
  of its record, if that rule fires: nothing collected before is removed, replaced or
  reordered. So the recommendations are in the order of the departments, within one
  department the high-ratio warning comes immediately before the low-budget warning,
  both rules can fire for one record, and a warning is given for each record it applies
  to, also when an equal warning was given before: of the records Nursing, Geology,
  Nursing, where both rules fire for Nursing and none for Geology, the recommendations
  are the two warnings of Nursing twice.
\<close>

theorem generateRecommendations_order:
  "callback departments recommendations dept =
     Inr (recommendations @
       ((if Number_lessThan (Finite 30) (ToNumber (Student_Faculty_Ratio dept))
         then [highRatioMessage (Department dept)
                 (toFixed 1 (ToNumber (Student_Faculty_Ratio dept)))]
         else [])
        @ (if Number_lessThan (ToNumber (Budget_per_Student dept))
                (Number_multiply (avgBudgetPerStudent departments) (roundToDouble (8 / 10)))
           then [lowBudgetMessage (Department dept)
                   (toFixed 2 (ToNumber (Budget_per_Student dept)))]
           else [])))
   \<and> generateRecommendations departments =
     Inr (concat (map (\<lambda>dept.
        (if Number_lessThan (Finite 30) (ToNumber (Student_Faculty_Ratio dept))
         then [highRatioMessage (Department dept)
                 (toFixed 1 (ToNumber (Student_Faculty_Ratio dept)))]
         else [])
        @ (if Number_lessThan (ToNumber (Budget_per_Student dept))
                (Number_multiply (avgBudgetPerStudent departments) (roundToDouble (8 / 10)))
           then [lowBudgetMessage (Department dept)
                   (toFixed 2 (ToNumber (Budget_per_Student dept)))]
           else [])) departments))
   \<and> generateRecommendations
         (analyzeDepartmentData
            [department ''Nursing'' 100 2 100, department ''Geology'' 10 1 1000,
             department ''Nursing'' 100 2 100]) =
       Inr [highRatioMessage ''Nursing'' ''50.0'', lowBudgetMessage ''Nursing'' ''1.00'',
            highRatioMessage ''Nursing'' ''50.0'', lowBudgetMessage ''Nursing'' ''1.00'']"
proof -
  have avg3: "avgBudgetPerStudent
         (analyzeDepartmentData
            [department ''Nursing'' 100 2 100, department ''Geology'' 10 1 1000,
             department ''Nursing'' 100 2 100]) = Finite 34"
    by (simp add: analyzeDepartmentData_def department_def avgBudgetPerStudent_def
          eval_divide_100_100 eval_divide_1000_10 eval_add_0_1 eval_add_1_100
          eval_add_101_1 eval_divide_102_3)
  have thr: "Number_multiply (Finite 34) (roundToDouble (8 / 10)) =
               Finite (1914029841632461 / 70368744177664)"
    by (simp add: roundToDouble_0_8 eval_multiply_34_0_8)
  have ex: "generateRecommendations
         (analyzeDepartmentData
            [department ''Nursing'' 100 2 100, department ''Geology'' 10 1 1000,
             department ''Nursing'' 100 2 100]) =
       Inr [highRatioMessage ''Nursing'' ''50.0'', lowBudgetMessage ''Nursing'' ''1.00'',
            highRatioMessage ''Nursing'' ''50.0'', lowBudgetMessage ''Nursing'' ''1.00'']"
    unfolding generateRecommendations_concat avg3 thr
    by (simp add: analyzeDepartmentData_def department_def eval_divide_100_2
          eval_divide_100_100 eval_divide_10_1 eval_divide_1000_10
          Number_lessThan_def toFixed_1_Finite [unfolded One_nat_def] toFixed_2_Finite
          Let_def floor_rat_numeral decimal_small decimal_step digit_def)
  show ?thesis
    using callback_eq [of departments recommendations dept]
      generateRecommendations_concat [of departments] ex
    by (intro conjI)
qed

section \<open>Properties of the request for insights\<close>

lemma getProperty_first:
  "getProperty (JArray (x # xs)) ''0'' = Inr x"
  by (simp add: upt_conv_Cons decimal_small digit_def del: upt_Suc)

lemma firstChoiceContent_no_choices:
  "map_of props ''choices'' = None \<Longrightarrow> firstChoiceContent (JObject props) = Inl TypeError"
  by (simp add: firstChoiceContent_def)

lemma firstChoiceContent_empty_choices:
  "map_of props ''choices'' = Some (JArray []) \<Longrightarrow>
     firstChoiceContent (JObject props) = Inl TypeError"
  by (simp add: firstChoiceContent_def)

lemma firstChoiceContent_message:
  "map_of props ''choices'' = Some (JArray (JObject cprops # rest)) \<Longrightarrow>
   map_of cprops ''message'' = Some (JObject mprops) \<Longrightarrow>
     firstChoiceContent (JObject props) =
       Inr (case map_of mprops ''content'' of None \<Rightarrow> JUndefined | Some c \<Rightarrow> c)"
  by (simp add: firstChoiceContent_def getProperty_first del: getProperty.simps(4))

text \<open>
  A sum by \<open>+\<close> that has become a string stays one; a sum from a number is a number
  exactly when no cell is a string or a \<open>Date\<close>.
\<close>

lemma addition_CString:
  "\<exists>t. addition (CString s) c = CString t"
  by (simp add: addition_def)

lemma foldl_addition_CString:
  "\<exists>t. foldl (\<lambda>acc dept. addition acc (f dept)) (CString s) rows = CString t"
proof (induction rows arbitrary: s)
  case Nil
  show ?case by simp
next
  case (Cons r rows)
  obtain t where "addition (CString s) (f r) = CString t"
    using addition_CString by blast
  then show ?case using Cons.IH [of t] by simp
qed

lemma foldl_addition_CNumber:
  "(\<exists>b. foldl (\<lambda>acc dept. addition acc (f dept)) (CNumber a) rows = CNumber b)
     \<longleftrightarrow> (\<forall>r \<in> set rows. cellNumber (f r) \<noteq> None)"
proof (induction rows arbitrary: a)
  case Nil
  show ?case by simp
next
  case (Cons r rows)
  show ?case
  proof (cases "cellNumber (f r)")
    case None
    then obtain t where "addition (CNumber a) (f r) = CString t"
      by (simp add: addition_def)
    then show ?thesis
      using foldl_addition_CString [of f t rows] None by auto
  next
    case (Some b)
    then have "addition (CNumber a) (f r) = CNumber (Number_add a b)"
      by (simp add: addition_def)
    then show ?thesis using Cons.IH [of "Number_add a b"] Some by simp
  qed
qed

lemma cellNumber_None:
  "cellNumber c = None \<longleftrightarrow> (\<exists>s. c = CString s \<or> c = CDate s)"
  by (cases c) simp_all

lemma prompt_raises:
  "prompt rows = Inl TypeError
     \<longleftrightarrow> (\<exists>r \<in> set rows. \<exists>s. BudgetCell r = CString s \<or> BudgetCell r = CDate s)"
proof -
  have "prompt rows = Inl TypeError
          \<longleftrightarrow> \<not> (\<exists>b. foldl (\<lambda>acc dept. addition acc (BudgetCell dept))
                              (CNumber (Finite 0)) rows = CNumber b)"
    by (simp add: prompt_def Let_def split: cell.splits)
  then show ?thesis
    unfolding foldl_addition_CNumber by (simp add: cellNumber_None)
qed

lemma prompt_cases:
  "prompt rows = Inl TypeError \<or> (\<exists>content. prompt rows = Inr content)"
  by (simp add: prompt_def Let_def split: cell.splits)

lemma prompt_toRow:
  "\<exists>content. prompt (map toRow departments) = Inr content"
  using prompt_raises [of "map toRow departments"] prompt_cases [of "map toRow departments"]
  by (auto simp add: toRow_def)

lemma getAiInsights_eq:
  "getAiInsights fetch key st =
     Inr (st \<lparr> aiInsight :=
                (case prompt (data st) of
                   Inl e \<Rightarrow> JString fallback
                 | Inr content \<Rightarrow>
                     (case fetch (insightRequest key content) of
                        Rejected \<Rightarrow> JString fallback
                      | Resolved response \<Rightarrow>
                          (case json response of
                             None \<Rightarrow> JString fallback
                           | Some result \<Rightarrow>
                               (case firstChoiceContent result of
                                  Inl e \<Rightarrow> JString fallback
                                | Inr content \<Rightarrow> content)))),
              loading := False \<rparr>)"
  by (simp add: getAiInsights_def tryBlock_def Let_def
        split: fetchResult.splits option.splits sum.splits)

text \<open>
  C8, as the program has it. \<open>getAiInsights\<close> never ends with an exception. It does
  not look at the status of the response. The insight is the fallback message when
  building the message of the request raises, when \<open>fetch\<close> fails, when the body is
  not a JSON document, and when evaluating \<open>result.choices[0].message.content\<close>
  raises, as it does when \<open>choices\<close> is absent or empty; the last three are the
  failures of an error response of the service, whatever its status. Building the
  message raises exactly when the \<open>Budget\<close> cell of some row of the dataset is a
  string or a \<open>Date\<close>, so never for records that have the types of the interface;
  \<open>fetch\<close> is then not called, and no response is read. Otherwise the insight is the
  value of \<open>result.choices[0].message.content\<close>, unmodified: the content of the
  message of the first choice, and \<open>undefined\<close> when that message has no content.
\<close>

theorem getAiInsights_outcome:
  "getAiInsights fetch key st =
     Inr (st \<lparr> aiInsight :=
                (case prompt (data st) of
                   Inl e \<Rightarrow> JString fallback
                 | Inr content \<Rightarrow>
                     (case fetch (insightRequest key content) of
                        Rejected \<Rightarrow> JString fallback
                      | Resolved response \<Rightarrow>
                          (case json response of
                             None \<Rightarrow> JString fallback
                           | Some result \<Rightarrow>
                               (case firstChoiceContent result of
                                  Inl e \<Rightarrow> JString fallback
                                | Inr content \<Rightarrow> content)))),
              loading := False \<rparr>)
   \<and> (prompt rows = Inl TypeError \<or> (\<exists>content. prompt rows = Inr content))
   \<and> (prompt rows = Inl TypeError
        \<longleftrightarrow> (\<exists>r \<in> set rows. \<exists>s. BudgetCell r = CString s \<or> BudgetCell r = CDate s))
   \<and> (\<exists>content. prompt (map toRow departments) = Inr content)
   \<and> getAiInsights (\<lambda>r. Resolved (Response status1 answer)) key st =
       getAiInsights (\<lambda>r. Resolved (Response status2 answer)) key st
   \<and> (map_of props ''choices'' = None \<longrightarrow>
          firstChoiceContent (JObject props) = Inl TypeError)
   \<and> (map_of props ''choices'' = Some (JArray []) \<longrightarrow>
          firstChoiceContent (JObject props) = Inl TypeError)
   \<and> (map_of props ''choices'' = Some (JArray (JObject cprops # rest))
        \<and> map_of cprops ''message'' = Some (JObject mprops) \<longrightarrow>
          firstChoiceContent (JObject props) =
            Inr (case map_of mprops ''content'' of None \<Rightarrow> JUndefined | Some c \<Rightarrow> c))"
proof -
  have status: "getAiInsights (\<lambda>r. Resolved (Response status1 answer)) key st =
       getAiInsights (\<lambda>r. Resolved (Response status2 answer)) key st"
    by (simp add: getAiInsights_eq split: sum.splits)
  have choices: "map_of props ''choices'' = None \<longrightarrow>
          firstChoiceContent (JObject props) = Inl TypeError"
    "map_of props ''choices'' = Some (JArray []) \<longrightarrow>
          firstChoiceContent (JObject props) = Inl TypeError"
    "map_of props ''choices'' = Some (JArray (JObject cprops # rest))
        \<and> map_of cprops ''message'' = Some (JObject mprops) \<longrightarrow>
          firstChoiceContent (JObject props) =
            Inr (case map_of mprops ''content'' of None \<Rightarrow> JUndefined | Some c \<Rightarrow> c)"
    by (simp_all add: firstChoiceContent_no_choices firstChoiceContent_empty_choices
          firstChoiceContent_message)
  show ?thesis
    using getAiInsights_eq [of fetch key st] prompt_cases [of rows] prompt_raises [of rows]
      prompt_toRow [of departments] status choices
    by (intro conjI)
qed

text \<open>
  An error response without \<open>choices\<close>, a network error and a body that is not JSON
  give the fallback message; a completion gives the content of its first choice. With
  a dataset whose one row has the text \<open>1,000\<close> as its budget, which the parser leaves
  a string, the same completion gives the fallback message.
\<close>

theorem getAiInsights_outcome_witness:
  "map_of [(''error'', JObject [(''message'', JString ''Incorrect API key provided'')])]
      ''choices'' = None
   \<and> getAiInsights
         (\<lambda>r. Resolved (Response 401
            (Some (JObject
               [(''error'', JObject [(''message'', JString ''Incorrect API key provided'')])]))))
         ''sk-none'' \<lparr> data = [], aiInsight = JString [], loading = False \<rparr>
       = Inr \<lparr> data = [], aiInsight = JString fallback, loading = False \<rparr>
   \<and> map_of [(''id'', JString ''chatcmpl-1''),
              (''choices'',
                 JArray [JObject [(''index'', JNumber (Finite 0)),
                                  (''message'',
                                     JObject [(''role'', JString ''assistant''),
                                              (''content'', JString ''Hire more faculty.'')])]])]
        ''choices''
       = Some (JArray [JObject [(''index'', JNumber (Finite 0)),
                                (''message'',
                                   JObject [(''role'', JString ''assistant''),
                                            (''content'', JString ''Hire more faculty.'')])]])
   \<and> getAiInsights
         (\<lambda>r. Resolved (Response 200
            (Some (JObject
               [(''id'', JString ''chatcmpl-1''),
                (''choices'',
                   JArray [JObject [(''index'', JNumber (Finite 0)),
                                    (''message'',
                                       JObject [(''role'', JString ''assistant''),
                                                (''content'', JString ''Hire more faculty.'')])]])]))))
         ''sk-none'' \<lparr> data = [], aiInsight = JString [], loading = False \<rparr>
       = Inr \<lparr> data = [], aiInsight = JString ''Hire more faculty.'', loading = False \<rparr>
   \<and> getAiInsights (\<lambda>r. Rejected) ''sk-none''
         \<lparr> data = [], aiInsight = JString [], loading = False \<rparr>
       = Inr \<lparr> data = [], aiInsight = JString fallback, loading = False \<rparr>
   \<and> getAiInsights (\<lambda>r. Resolved (Response 200 None)) ''sk-none''
         \<lparr> data = [], aiInsight = JString [], loading = False \<rparr>
       = Inr \<lparr> data = [], aiInsight = JString fallback, loading = False \<rparr>
   \<and> (\<exists>r \<in> set [\<lparr> DepartmentCell = CString ''Arts'', StudentsCell = CNumber (Finite 120),
                      FacultyCell = CNumber (Finite 6), BudgetCell = CString ''1,000'',
                      Student_Faculty_Ratio_Cell = Some (Finite 20),
                      Budget_per_Student_Cell = Some NaN \<rparr>].
          \<exists>s. BudgetCell r = CString s \<or> BudgetCell r = CDate s)
   \<and> getAiInsights
         (\<lambda>r. Resolved (Response 200
            (Some (JObject
               [(''id'', JString ''chatcmpl-1''),
                (''choices'',
                   JArray [JObject [(''index'', JNumber (Finite 0)),
                                    (''message'',
                                       JObject [(''role'', JString ''assistant''),
                                                (''content'', JString ''Hire more faculty.'')])]])]))))
         ''sk-none''
         \<lparr> data = [\<lparr> DepartmentCell = CString ''Arts'', StudentsCell = CNumber (Finite 120),
                      FacultyCell = CNumber (Finite 6), BudgetCell = CString ''1,000'',
                      Student_Faculty_Ratio_Cell = Some (Finite 20),
                      Budget_per_Student_Cell = Some NaN \<rparr>],
            aiInsight = JString [], loading = False \<rparr>
       = Inr \<lparr> data = [\<lparr> DepartmentCell = CString ''Arts'', StudentsCell = CNumber (Finite 120),
                          FacultyCell = CNumber (Finite 6), BudgetCell = CString ''1,000'',
                          Student_Faculty_Ratio_Cell = Some (Finite 20),
                          Budget_per_Student_Cell = Some NaN \<rparr>],
                aiInsight = JString fallback, loading = False \<rparr>"
proof -
  let ?st = "\<lparr> data = [] :: Row list, aiInsight = JString [], loading = False \<rparr>"
  let ?err = "[(''error'', JObject [(''message'', JString ''Incorrect API key provided'')])]"
  let ?m = "[(''role'', JString ''assistant''), (''content'', JString ''Hire more faculty.'')]"
  let ?c = "[(''index'', JNumber (Finite 0)), (''message'', JObject ?m)]"
  let ?ok = "[(''id'', JString ''chatcmpl-1''), (''choices'', JArray [JObject ?c])]"
  let ?row = "\<lparr> DepartmentCell = CString ''Arts'', StudentsCell = CNumber (Finite 120),
                FacultyCell = CNumber (Finite 6), BudgetCell = CString ''1,000'',
                Student_Faculty_Ratio_Cell = Some (Finite 20),
                Budget_per_Student_Cell = Some NaN \<rparr>"
  let ?st' = "\<lparr> data = [?row], aiInsight = JString [], loading = False \<rparr>"
  have p0: "\<exists>content. prompt [] = Inr content"
    using getAiInsights_outcome [where departments = "[]"] by simp
  have e: "firstChoiceContent (JObject ?err) = Inl TypeError"
    using getAiInsights_outcome [where props = ?err] by simp
  have k: "firstChoiceContent (JObject ?ok) = Inr (JString ''Hire more faculty.'')"
    using getAiInsights_outcome [where props = ?ok and cprops = ?c and rest = "[]" and mprops = ?m]
    by simp
  have 1: "getAiInsights (\<lambda>r. Resolved (Response 401 (Some (JObject ?err)))) ''sk-none'' ?st
             = Inr \<lparr> data = [], aiInsight = JString fallback, loading = False \<rparr>"
    using getAiInsights_outcome
            [of "\<lambda>r. Resolved (Response 401 (Some (JObject ?err)))" "''sk-none''" ?st] e p0
    by auto
  have 2: "getAiInsights (\<lambda>r. Resolved (Response 200 (Some (JObject ?ok)))) ''sk-none'' ?st
             = Inr \<lparr> data = [], aiInsight = JString ''Hire more faculty.'', loading = False \<rparr>"
    using getAiInsights_outcome
            [of "\<lambda>r. Resolved (Response 200 (Some (JObject ?ok)))" "''sk-none''" ?st] k p0
    by auto
  have 3: "getAiInsights (\<lambda>r. Rejected) ''sk-none'' ?st
             = Inr \<lparr> data = [], aiInsight = JString fallback, loading = False \<rparr>"
    using getAiInsights_outcome [of "\<lambda>r. Rejected" "''sk-none''" ?st] p0 by auto
  have 4: "getAiInsights (\<lambda>r. Resolved (Response 200 None)) ''sk-none'' ?st
             = Inr \<lparr> data = [], aiInsight = JString fallback, loading = False \<rparr>"
    using getAiInsights_outcome [of "\<lambda>r. Resolved (Response 200 None)" "''sk-none''" ?st] p0
    by auto
  have b: "\<exists>r \<in> set [?row]. \<exists>s. BudgetCell r = CString s \<or> BudgetCell r = CDate s"
    by simp
  have "prompt [?row] = Inl TypeError
          \<longleftrightarrow> (\<exists>r \<in> set [?row]. \<exists>s. BudgetCell r = CString s \<or> BudgetCell r = CDate s)"
    by (rule getAiInsights_outcome
              [where rows = "[?row]", THEN conjunct2, THEN conjunct2, THEN conjunct1])
  then have p1: "prompt [?row] = Inl TypeError" using b by blast
  have 5: "getAiInsights (\<lambda>r. Resolved (Response 200 (Some (JObject ?ok)))) ''sk-none'' ?st'
             = Inr \<lparr> data = [?row], aiInsight = JString fallback, loading = False \<rparr>"
    using getAiInsights_outcome
            [of "\<lambda>r. Resolved (Response 200 (Some (JObject ?ok)))" "''sk-none''" ?st'] p1
    by simp
  have m1: "map_of ?err ''choices'' = None" by simp
  have m2: "map_of ?ok ''choices'' = Some (JArray [JObject ?c])" by simp
  show ?thesis using m1 1 m2 2 3 4 b 5 by (intro conjI)
qed

text \<open>
  C8 as stated fails: a response with status 500 whose body has a first choice with a
  message gives the content of that message, not the fallback message; and a response
  whose first choice has a message without content gives \<open>undefined\<close>, not the
  fallback message.
\<close>

theorem getAiInsights_counterexample:
  "getAiInsights
     (\<lambda>r. Resolved (Response 500
        (Some (JObject
           [(''choices'',
               JArray [JObject [(''message'',
                                   JObject [(''role'', JString ''assistant''),
                                            (''content'', JString ''Hire more faculty.'')])]])]))))
     ''sk-none'' \<lparr> data = [], aiInsight = JString [], loading = False \<rparr>
     = Inr \<lparr> data = [], aiInsight = JString ''Hire more faculty.'', loading = False \<rparr>
   \<and> JString ''Hire more faculty.'' \<noteq> JString fallback
   \<and> getAiInsights
         (\<lambda>r. Resolved (Response 200
            (Some (JObject
               [(''choices'',
                   JArray [JObject [(''message'',
                                       JObject [(''role'', JString ''assistant'')])]])]))))
         ''sk-none'' \<lparr> data = [], aiInsight = JString [], loading = False \<rparr>
       = Inr \<lparr> data = [], aiInsight = JUndefined, loading = False \<rparr>
   \<and> JUndefined \<noteq> JString fallback"
  by (simp add: getAiInsights_eq prompt_def firstChoiceContent_def getProperty_first
        fallback_def del: getProperty.simps(4))

end
